theory Spec2Isabelle
  imports Main "HOL-Library.Char_ord" "HOL-Library.List_Lexorder" "HOL-Library.Sublist"
begin

section \<open>The ceph\_key module (library/ceph\_key.py, module\_utils/ca\_common.py)\<close>

text \<open>
  Python strings are modelled as \<open>string\<close>, Python \<open>bytes\<close> as lists of naturals below 256,
  a dictionary of capabilities as the list of its items in iteration order (keys distinct),
  and every raise or \<open>fail_json\<close> as a value of the type \<open>error\<close>.
\<close>

subsection \<open>Errors and Python values\<close>

datatype error =
    Fatal string               \<comment> \<open>\<open>fatal(message, module)\<close>: \<open>module.fail_json(msg=message, rc=1)\<close>\<close>
  | ValueError string
  | TypeError
  | AttributeError
  | KeyError
  | IndexError
  | UnboundLocalError string   \<comment> \<open>the local variable read before assignment\<close>
  | StructError                \<comment> \<open>\<open>struct.error\<close>\<close>

text \<open>The values \<open>str_to_bool\<close> can receive: a string, a boolean, or None.\<close>

datatype pyval = PStr string | PBool bool | PNone

fun py_str :: "pyval \<Rightarrow> string" where
  "py_str (PStr s) = s"
| "py_str (PBool True) = ''True''"
| "py_str (PBool False) = ''False''"
| "py_str PNone = ''None''"

subsection \<open>String operations of the Python library\<close>

text \<open>\<open>str.lower\<close> on the ASCII letters; every other character is left as it is.\<close>

definition lower_char :: "char \<Rightarrow> char" where
  "lower_char c =
     (case map_of (zip ''ABCDEFGHIJKLMNOPQRSTUVWXYZ'' ''abcdefghijklmnopqrstuvwxyz'') c of
        Some d \<Rightarrow> d
      | None \<Rightarrow> c)"

definition lower :: "string \<Rightarrow> string" where
  "lower s = map lower_char s"

text \<open>\<open>sep.join(xs)\<close>.\<close>

fun join :: "string \<Rightarrow> string list \<Rightarrow> string" where
  "join sep [] = []"
| "join sep [x] = x"
| "join sep (x # y # ys) = x @ sep @ join sep (y # ys)"

text \<open>\<open>s.split(sep)\<close> for a one-character separator: never an empty list.\<close>

fun split :: "char \<Rightarrow> string \<Rightarrow> string list" where
  "split sep [] = [[]]"
| "split sep (c # cs) =
     (if c = sep then [] # split sep cs
      else (case split sep cs of
              p # ps \<Rightarrow> (c # p) # ps
            | [] \<Rightarrow> [[c]]))"

text \<open>\<open>s.rstrip("\r\n")\<close>: drops every trailing carriage return and line feed.\<close>

definition rstrip_crlf :: "string \<Rightarrow> string" where
  "rstrip_crlf s = rev (dropWhile (\<lambda>c. c = CHR 0x0D \<or> c = CHR 0x0A) (rev s))"

text \<open>
  \<open>os.path.join(a, *p)\<close> of posixpath: a component that starts with a slash replaces what
  came before it; otherwise it is appended, after a slash unless the path so far is empty or
  ends with one.
\<close>

definition path_join_step :: "string \<Rightarrow> string \<Rightarrow> string" where
  "path_join_step path b =
     (if b \<noteq> [] \<and> hd b = CHR ''/'' then b
      else if path = [] \<or> last path = CHR ''/'' then path @ b
      else path @ ''/'' @ b)"

definition path_join :: "string \<Rightarrow> string list \<Rightarrow> string" where
  "path_join a p = foldl path_join_step a p"

text \<open>Truthiness of an optional string: None and the empty string are false.\<close>

definition truthy :: "string option \<Rightarrow> bool" where
  "truthy s = (case s of None \<Rightarrow> False | Some v \<Rightarrow> v \<noteq> [])"

subsection \<open>str\_to\_bool\<close>

definition str_to_bool :: "pyval \<Rightarrow> error + bool" where
  "str_to_bool val =
     (let v = (case val of PStr s \<Rightarrow> lower s | _ \<Rightarrow> lower (py_str val))
      in if v = ''true'' then Inr True
         else if v = ''false'' then Inr False
         else Inl (ValueError (''Invalid input value: '' @ v)))"

subsection \<open>generate\_secret\<close>

text \<open>Little-endian bytes of a natural number.\<close>

fun le_bytes :: "nat \<Rightarrow> nat \<Rightarrow> nat list" where
  "le_bytes 0 v = []"
| "le_bytes (Suc n) v = (v mod 256) # le_bytes n (v div 256)"

text \<open>
  One signed field of \<open>struct.pack\<close> in standard size: the value in two's complement, or
  \<open>struct.error\<close> when it does not fit.
\<close>

definition pack_int :: "nat \<Rightarrow> int \<Rightarrow> error + nat list" where
  "pack_int n v =
     (if - (2 ^ (8 * n - 1)) \<le> v \<and> v < 2 ^ (8 * n - 1)
      then Inr (le_bytes n (nat (v mod 2 ^ (8 * n))))
      else Inl StructError)"

text \<open>The format characters the module uses: \<open>h\<close> is a 2-byte and \<open>i\<close> a 4-byte integer.\<close>

definition field_size :: "char \<Rightarrow> nat option" where
  "field_size c = (if c = CHR ''h'' then Some 2 else if c = CHR ''i'' then Some 4 else None)"

fun pack_fields :: "string \<Rightarrow> int list \<Rightarrow> error + nat list" where
  "pack_fields [] [] = Inr []"
| "pack_fields (c # fmt) (v # vs) =
     (case field_size c of
        None \<Rightarrow> Inl StructError
      | Some n \<Rightarrow>
          (case pack_int n v of
             Inl e \<Rightarrow> Inl e
           | Inr bs \<Rightarrow>
               (case pack_fields fmt vs of
                  Inl e \<Rightarrow> Inl e
                | Inr rest \<Rightarrow> Inr (bs @ rest))))"
| "pack_fields _ _ = Inl StructError"

text \<open>
  \<open>struct.pack(fmt, *values)\<close> for a format that starts with \<open><\<close> (little-endian, standard
  sizes, no padding), the only byte order the module uses.
\<close>

definition struct_pack :: "string \<Rightarrow> int list \<Rightarrow> error + nat list" where
  "struct_pack fmt vs =
     (case fmt of
        c # rest \<Rightarrow> if c = CHR ''<'' then pack_fields rest vs else Inl StructError
      | [] \<Rightarrow> Inl StructError)"

definition b64alphabet :: string where
  "b64alphabet = ''ABCDEFGHIJKLMNOPQRSTUVWXYZabcdefghijklmnopqrstuvwxyz0123456789+/''"

definition b64char :: "nat \<Rightarrow> char" where
  "b64char n = b64alphabet ! n"

text \<open>\<open>base64.b64encode\<close>: three bytes give four characters, the rest is padded with \<open>=\<close>.\<close>

fun b64encode :: "nat list \<Rightarrow> string" where
  "b64encode [] = []"
| "b64encode [a] = [b64char (a div 4), b64char ((a mod 4) * 16), CHR ''='', CHR ''='']"
| "b64encode [a, b] =
     [b64char (a div 4), b64char ((a mod 4) * 16 + b div 16), b64char ((b mod 16) * 4),
      CHR ''='']"
| "b64encode (a # b # c # rest) =
     [b64char (a div 4), b64char ((a mod 4) * 16 + b div 16),
      b64char ((b mod 16) * 4 + c div 64), b64char (c mod 64)] @ b64encode rest"

text \<open>
  \<open>generate_secret()\<close>: the 16 bytes of \<open>os.urandom(16)\<close> and the value of
  \<open>int(time.time())\<close> are taken as arguments.
\<close>

definition generate_secret :: "nat list \<Rightarrow> int \<Rightarrow> error + string" where
  "generate_secret key now =
     (case struct_pack ''<hiih'' [1, now, 0, int (length key)] of
        Inl e \<Rightarrow> Inl e
      | Inr header \<Rightarrow> Inr (b64encode (header @ key)))"

subsection \<open>generate\_caps\<close>

type_synonym caps = "(string \<times> string) list"

text \<open>The loop over \<open>caps.items()\<close>, with \<open>caps_cli\<close> as the accumulator.\<close>

fun generate_caps_loop :: "string option \<Rightarrow> caps \<Rightarrow> string list \<Rightarrow> string list" where
  "generate_caps_loop t [] caps_cli = caps_cli"
| "generate_caps_loop t ((k, v) # items) caps_cli =
     (if length k = 0 then generate_caps_loop t items caps_cli
      else generate_caps_loop t items
             ((if t = Some ''ceph-authtool'' then caps_cli @ [''--cap''] else caps_cli) @ [k, v]))"

definition generate_caps :: "string option \<Rightarrow> caps \<Rightarrow> string list" where
  "generate_caps t caps = generate_caps_loop t caps []"

subsection \<open>Command builders\<close>

type_synonym argv = "string list"

text \<open>
  \<open>container_exec\<close> of ca\_common.py. The value of \<open>os.getenv('CEPH_CONTAINER_BINARY')\<close> is
  the first argument, taken as a string (the variable is set wherever a container image is).
\<close>

definition container_exec :: "string \<Rightarrow> string \<Rightarrow> string \<Rightarrow> bool \<Rightarrow> argv" where
  "container_exec container_binary binary container_image interactive =
     [container_binary, ''run'']
     @ (if interactive then [''--interactive''] else [])
     @ [''--rm'', ''--net=host'',
        ''-v'', ''/etc/ceph:/etc/ceph:z'',
        ''-v'', ''/var/lib/ceph/:/var/lib/ceph/:z'',
        ''-v'', ''/var/log/ceph/:/var/log/ceph/:z'',
        ''--entrypoint='' @ binary, container_image]"

text \<open>The start of a command: the container wrapper when an image is given, else the binary.\<close>

definition binary_cmd :: "string \<Rightarrow> string \<Rightarrow> string option \<Rightarrow> argv" where
  "binary_cmd container_binary binary container_image =
     (if truthy container_image
      then (case container_image of
              Some img \<Rightarrow> container_exec container_binary binary img False
            | None \<Rightarrow> [binary])
      else [binary])"

text \<open>\<open>generate_cmd\<close> of ceph\_key.py.\<close>

definition generate_cmd ::
  "string \<Rightarrow> string \<Rightarrow> string list \<Rightarrow> string \<Rightarrow> string \<Rightarrow> string option \<Rightarrow> argv" where
  "generate_cmd container_binary cluster args user user_key_path container_image =
     binary_cmd container_binary ''ceph'' container_image
     @ ([''-n'', user, ''-k'', user_key_path, ''--cluster'', cluster, ''auth''] @ args)"

definition generate_ceph_authtool_cmd ::
  "string \<Rightarrow> string \<Rightarrow> string \<Rightarrow> string \<Rightarrow> caps \<Rightarrow> string \<Rightarrow> string option \<Rightarrow> argv" where
  "generate_ceph_authtool_cmd container_binary cluster name secret caps dest container_image =
     binary_cmd container_binary ''ceph-authtool'' container_image
     @ [''--create-keyring'', dest, ''--name'', name, ''--add-key'', secret]
     @ generate_caps (Some ''ceph-authtool'') caps"

text \<open>
  \<open>create_key\<close>. The random bytes and the time that \<open>generate_secret\<close> reads are arguments;
  \<open>module\<close> and \<open>result\<close> are not used by the body.
\<close>

definition create_key ::
  "string \<Rightarrow> nat list \<Rightarrow> int \<Rightarrow> string \<Rightarrow> string \<Rightarrow> string \<Rightarrow> string \<Rightarrow> string option \<Rightarrow> caps
     \<Rightarrow> bool \<Rightarrow> string \<Rightarrow> string option \<Rightarrow> error + argv list" where
  "create_key container_binary rnd now cluster user user_key_path name secret caps import_key
     dest container_image =
     (case (if \<not> truthy secret then generate_secret rnd now
            else (case secret of Some s \<Rightarrow> Inr s | None \<Rightarrow> generate_secret rnd now)) of
        Inl e \<Rightarrow> Inl e
      | Inr secret' \<Rightarrow>
          (let args = (if user = ''client.admin'' then [''import'', ''-i'', dest]
                       else [''get-or-create'', name] @ generate_caps None caps @ [''-o'', dest]);
               cmd_list = [generate_ceph_authtool_cmd container_binary cluster name secret' caps
                             dest container_image]
           in Inr (if import_key \<or> user \<noteq> ''client.admin''
                   then cmd_list @ [generate_cmd container_binary cluster args user user_key_path
                                      container_image]
                   else cmd_list)))"

definition delete_key ::
  "string \<Rightarrow> string \<Rightarrow> string \<Rightarrow> string \<Rightarrow> string \<Rightarrow> string option \<Rightarrow> argv list" where
  "delete_key container_binary cluster user user_key_path name container_image =
     [generate_cmd container_binary cluster [''del'', name] user user_key_path container_image]"

definition get_key ::
  "string \<Rightarrow> string \<Rightarrow> string \<Rightarrow> string \<Rightarrow> string \<Rightarrow> string \<Rightarrow> string option \<Rightarrow> argv list" where
  "get_key container_binary cluster user user_key_path name dest container_image =
     [generate_cmd container_binary cluster [''get'', name, ''-o'', dest] user user_key_path
        container_image]"

definition info_key ::
  "string \<Rightarrow> string \<Rightarrow> string \<Rightarrow> string \<Rightarrow> string \<Rightarrow> string \<Rightarrow> string option \<Rightarrow> argv list" where
  "info_key container_binary cluster name user user_key_path output_format container_image =
     [generate_cmd container_binary cluster [''get'', name, ''-f'', output_format] user
        user_key_path container_image]"

definition list_keys :: "string \<Rightarrow> string \<Rightarrow> string \<Rightarrow> string \<Rightarrow> string option \<Rightarrow> argv list" where
  "list_keys container_binary cluster user user_key_path container_image =
     [generate_cmd container_binary cluster [''ls'', ''-f'', ''json''] user user_key_path
        container_image]"

subsection \<open>exec\_commands\<close>

text \<open>
  \<open>module.run_command\<close> is a function from the argument vector to exit code, stdout and stderr.
  \<open>exec_commands\<close> returns the commands it has run together with its result; on an empty
  list the loop body never binds \<open>rc\<close> and the \<open>return\<close> raises.
\<close>

type_synonym runner = "argv \<Rightarrow> int \<times> string \<times> string"

type_synonym execres = "int \<times> argv \<times> string \<times> string"

fun exec_commands :: "runner \<Rightarrow> argv list \<Rightarrow> argv list \<times> (error + execres)" where
  "exec_commands run [] = ([], Inl (UnboundLocalError ''rc''))"
| "exec_commands run [cmd] =
     (case run cmd of (rc, out, err) \<Rightarrow> ([cmd], Inr (rc, cmd, out, err)))"
| "exec_commands run (cmd # c # cs) =
     (case run cmd of (rc, out, err) \<Rightarrow>
        if rc \<noteq> 0 then ([cmd], Inr (rc, cmd, out, err))
        else (case exec_commands run (c # cs) of (tr, r) \<Rightarrow> (cmd # tr, r)))"

subsection \<open>Decoded JSON\<close>

datatype json =
    JNull
  | JBool bool
  | JNum int
  | JStr string
  | JArr "json list"
  | JObj "(string \<times> json) list"   \<comment> \<open>the items of the dictionary, keys distinct\<close>

text \<open>\<open>json.loads\<close> is a parameter: \<open>Inl\<close> carries the text of the ValueError it raises.\<close>

type_synonym loads = "string \<Rightarrow> string + json"

subsection \<open>lookup\_ceph\_initial\_entities\<close>

definition CEPH_INITIAL_KEYS :: "string list" where
  "CEPH_INITIAL_KEYS =
     [''client.admin'', ''client.bootstrap-mds'', ''client.bootstrap-mgr'',
      ''client.bootstrap-osd'', ''client.bootstrap-rbd'', ''client.bootstrap-rbd-mirror'',
      ''client.bootstrap-rgw'']"

text \<open>The inner loop over \<open>key.items()\<close>: appends the value of \<open>entity\<close> when it is well known.\<close>

fun entity_items :: "(string \<times> json) list \<Rightarrow> string list \<Rightarrow> string list" where
  "entity_items [] entities = entities"
| "entity_items ((k, v) # items) entities =
     (if k = ''entity''
      then (case v of
              JStr s \<Rightarrow> if s \<in> set CEPH_INITIAL_KEYS then entity_items items (entities @ [s])
                        else entity_items items entities
            | _ \<Rightarrow> entity_items items entities)
      else entity_items items entities)"

text \<open>The outer loop over \<open>out_dict["auth_dump"]\<close>: \<open>.items()\<close> exists on dictionaries only.\<close>

fun auth_dump_loop :: "json list \<Rightarrow> string list \<Rightarrow> error + string list" where
  "auth_dump_loop [] entities = Inr entities"
| "auth_dump_loop (key # keys) entities =
     (case key of
        JObj items \<Rightarrow> auth_dump_loop keys (entity_items items entities)
      | _ \<Rightarrow> Inl AttributeError)"

definition auth_dump_missing :: string where
  "auth_dump_missing = CHR 0x27 # ''auth_dump' key not present in json output:''"

text \<open>
  The matched entities of a decoded listing: \<open>"auth_dump" in out_dict\<close>, then the two loops.
  A listing that is a dictionary is the case the registry produces; for the other JSON types
  the membership test, the subscript and the iteration behave as Python's do.
\<close>

definition matched_entities :: "json \<Rightarrow> error + string list" where
  "matched_entities out_dict =
     (case out_dict of
        JObj d \<Rightarrow>
          (case map_of d ''auth_dump'' of
             None \<Rightarrow> Inl (Fatal auth_dump_missing)
           | Some (JArr keys) \<Rightarrow> auth_dump_loop keys []
           | Some (JObj items) \<Rightarrow> if items = [] then Inr [] else Inl AttributeError
           | Some (JStr s) \<Rightarrow> if s = [] then Inr [] else Inl AttributeError
           | Some _ \<Rightarrow> Inl TypeError)
      | JArr xs \<Rightarrow>
          if JStr ''auth_dump'' \<in> set xs then Inl TypeError else Inl (Fatal auth_dump_missing)
      | JStr s \<Rightarrow>
          if sublist ''auth_dump'' s then Inl TypeError else Inl (Fatal auth_dump_missing)
      | _ \<Rightarrow> Inl TypeError)"

text \<open>What \<open>os.environ.get('CEPH_ROLLING_UPDATE', False)\<close> returns.\<close>

definition environ_get_rolling_update :: "string option \<Rightarrow> pyval" where
  "environ_get_rolling_update v = (case v of None \<Rightarrow> PBool False | Some s \<Rightarrow> PStr s)"

text \<open>The check after the loops; \<open>and\<close> reads the environment only when the lengths differ.\<close>

definition check_initial_entities :: "string option \<Rightarrow> string list \<Rightarrow> error + string list" where
  "check_initial_entities rolling_update entities =
     (if length entities \<noteq> length CEPH_INITIAL_KEYS
      then (case str_to_bool (environ_get_rolling_update rolling_update) of
              Inl e \<Rightarrow> Inl e
            | Inr b \<Rightarrow>
                if \<not> b
                then Inl (Fatal (''initial keyring does not contain keys: ''
                                 @ join '' '' (filter (\<lambda>e. e \<notin> set entities) CEPH_INITIAL_KEYS)))
                else Inr entities)
      else Inr entities)"

definition lookup_ceph_initial_entities ::
  "loads \<Rightarrow> string option \<Rightarrow> string \<Rightarrow> error + string list" where
  "lookup_ceph_initial_entities json_loads rolling_update out =
     (case json_loads out of
        Inl e \<Rightarrow> Inl (Fatal (''Could not decode 'ceph auth list' json output: '' @ e))
      | Inr out_dict \<Rightarrow>
          (case matched_entities out_dict of
             Inl e \<Rightarrow> Inl e
           | Inr entities \<Rightarrow> check_initial_entities rolling_update entities))"

subsection \<open>build\_key\_path\<close>

definition build_key_path :: "string \<Rightarrow> string \<Rightarrow> error + string option" where
  "build_key_path cluster entity =
     (if sublist ''admin'' entity
      then Inr (Some (path_join ''/etc/ceph'' [cluster @ ''.'' @ entity @ ''.keyring'']))
      else if sublist ''bootstrap'' entity
      then (case split (CHR ''.'') entity of
              _ # entity_split # _ \<Rightarrow>
                Inr (Some (path_join ''/var/lib/ceph'' [entity_split, cluster @ ''.keyring'']))
            | _ \<Rightarrow> Inl IndexError)
      else Inr None)"

subsection \<open>run\_module: parameters, collaborators, result\<close>

datatype state =
    St_present | St_update | St_absent | St_list | St_info | St_fetch_initial_keys
  | St_generate_secret

text \<open>
  \<open>module.params\<close> after AnsibleModule has applied the argument specification. \<open>name\<close> is
  documented as required and is a string here.
\<close>

record params =
  p_state :: state
  p_name :: string
  p_cluster :: string
  p_caps :: "caps option"
  p_secret :: "string option"
  p_import_key :: bool
  p_dest :: string
  p_user :: string
  p_user_key :: "string option"
  p_output_format :: string
  p_check_mode :: bool

text \<open>
  What the module reads from outside: the executor, the file system tests, \<open>json.loads\<close>,
  three environment variables, the random source, the clock and the host name. The start and
  end times of the result and \<open>set_fs_attributes_if_different\<close> (file permissions) are not
  part of the model.
\<close>

record world =
  run_command :: runner
  isdir :: "string \<Rightarrow> bool"
  isfile :: "string \<Rightarrow> bool"
  json_decode :: loads
  env_container_image :: "string option"
  env_container_binary :: string
  env_rolling_update :: "string option"
  urandom16 :: "nat list"
  time_time :: int
  gethostname :: string

datatype cmdval = CmdArgv argv | CmdStr string

record result =
  r_cmd :: "cmdval option"
  r_rc :: int
  r_stdout :: string
  r_stderr :: string
  r_sdterr :: "string option"
  r_changed :: bool

text \<open>How a run ends: \<open>exit_json\<close>, \<open>fail_json\<close> with the result, or an exception.\<close>

datatype outcome = Exit_json result | Fail_json string result | Raised error

text \<open>The local variables of \<open>run_module\<close> that the branches bind; None is unbound.\<close>

record locals =
  l_rc :: "int option"
  l_cmd :: "cmdval option"
  l_out :: "string option"
  l_err :: "string option"
  l_changed :: bool
  l_key_exist :: int

definition initial_result :: result where
  "initial_result =
     \<lparr>r_cmd = None, r_rc = 0, r_stdout = [], r_stderr = [], r_sdterr = None,
      r_changed = False\<rparr>"

definition initial_locals :: locals where
  "initial_locals =
     \<lparr>l_rc = None, l_cmd = None, l_out = None, l_err = None, l_changed = False,
      l_key_exist = 1\<rparr>"

text \<open>\<open>rc, cmd, out, err = exec_commands(...)\<close>.\<close>

definition bind_exec :: "execres \<Rightarrow> locals \<Rightarrow> locals" where
  "bind_exec r l =
     (case r of (rc, cmd, out, err) \<Rightarrow>
        l\<lparr>l_rc := Some rc, l_cmd := Some (CmdArgv cmd), l_out := Some out, l_err := Some err\<rparr>)"

text \<open>\<open>is_containerized()\<close> of ca\_common.py.\<close>

definition is_containerized :: "world \<Rightarrow> string option" where
  "is_containerized w = env_container_image w"

definition caps_truthy :: "caps option \<Rightarrow> bool" where
  "caps_truthy c = (case c of None \<Rightarrow> False | Some d \<Rightarrow> d \<noteq> [])"

text \<open>
  Equality of two optional dictionaries: the same items, in any order (the lists hold the
  items of dictionaries, so their keys are distinct).
\<close>

definition caps_eq :: "caps option \<Rightarrow> caps option \<Rightarrow> bool" where
  "caps_eq a b =
     (case (a, b) of
        (None, None) \<Rightarrow> True
      | (Some x, Some y) \<Rightarrow> set x = set y
      | _ \<Rightarrow> False)"

subsection \<open>Key path of present and update (lines 552 to 561)\<close>

definition keyring_file_path :: "(string \<Rightarrow> bool) \<Rightarrow> string \<Rightarrow> string \<Rightarrow> string \<Rightarrow> string" where
  "keyring_file_path is_dir dest cluster name =
     (if \<not> is_dir dest then dest
      else path_join dest
             [if sublist ''bootstrap'' dest then cluster @ ''.keyring''
              else cluster @ ''.'' @ name @ ''.keyring''])"

subsection \<open>The record of an existing key (lines 575 to 581)\<close>

text \<open>\<open>x[0]\<close> on a decoded value.\<close>

definition subscript0 :: "json \<Rightarrow> error + json" where
  "subscript0 j =
     (case j of
        JArr [] \<Rightarrow> Inl IndexError
      | JArr (x # _) \<Rightarrow> Inr x
      | JObj _ \<Rightarrow> Inl KeyError
      | JStr [] \<Rightarrow> Inl IndexError
      | JStr (c # _) \<Rightarrow> Inr (JStr [c])
      | _ \<Rightarrow> Inl TypeError)"

text \<open>\<open>x[k]\<close> for a string \<open>k\<close>.\<close>

definition subscript_key :: "json \<Rightarrow> string \<Rightarrow> error + json" where
  "subscript_key j k =
     (case j of
        JObj d \<Rightarrow> (case map_of d k of None \<Rightarrow> Inl KeyError | Some v \<Rightarrow> Inr v)
      | _ \<Rightarrow> Inl TypeError)"

definition json_caps :: "(string \<times> json) list \<Rightarrow> caps option" where
  "json_caps items =
     those (map (\<lambda>(k, v). case v of JStr s \<Rightarrow> Some (k, s) | _ \<Rightarrow> None) items)"

text \<open>
  \<open>_info_key[0]['key']\<close> and \<open>_info_key[0]['caps']\<close>. The registry prints the key as a
  string and the capabilities as a dictionary of strings; a decoded value of another JSON
  type in one of the two fields is \<open>Unmodelled\<close>.
\<close>

datatype 'a lookup = Raises error | Unmodelled | Found 'a

definition info_record :: "json \<Rightarrow> (string \<times> caps) lookup" where
  "info_record info =
     (case subscript0 info of
        Inl e \<Rightarrow> Raises e
      | Inr first \<Rightarrow>
          (case subscript_key first ''key'' of
             Inl e \<Rightarrow> Raises e
           | Inr k \<Rightarrow>
               (case subscript_key first ''caps'' of
                  Inl e \<Rightarrow> Raises e
                | Inr c \<Rightarrow>
                    (case (k, c) of
                       (JStr key, JObj items) \<Rightarrow>
                         (case json_caps items of
                            None \<Rightarrow> Unmodelled
                          | Some cs \<Rightarrow> Found (key, cs))
                     | _ \<Rightarrow> Unmodelled))))"

subsection \<open>run\_module: the branches\<close>

text \<open>
  A branch returns the commands it ran and either the way the module ended inside the branch
  (\<open>Inl\<close>) or the local variables with which control reaches the end of \<open>run_module\<close>
  (\<open>Inr\<close>). \<open>Stop_unmodelled\<close> marks a run that met an \<open>Unmodelled\<close> registry record.
\<close>

datatype ending = Stop outcome | Stop_unmodelled

type_synonym branch = "argv list \<times> (ending + locals)"

definition after :: "argv list \<Rightarrow> branch \<Rightarrow> branch" where
  "after tr b = (case b of (tr2, r) \<Rightarrow> (tr @ tr2, r))"

definition msg_caps_required :: string where
  "msg_caps_required = ''Capabilities must be provided when state is 'present'' @ [CHR 0x27]"

definition msg_keyring_missing :: string where
  "msg_keyring_missing =
     ''Keyring doesn't exist, you must provide 'secret' and 'caps'' @ [CHR 0x27]"

definition msg_already :: "string \<Rightarrow> string" where
  "msg_already name = name @ '' already exists and doesn't need to be updated.''"

text \<open>Lines 600 to 608: create or update, through \<open>create_key\<close>.\<close>

definition create_step ::
  "params \<Rightarrow> world \<Rightarrow> string \<Rightarrow> string \<Rightarrow> string option \<Rightarrow> caps option \<Rightarrow> string option
     \<Rightarrow> caps option \<Rightarrow> locals \<Rightarrow> branch" where
  "create_step p w user_key_path file_path secret caps secret0 caps0 l =
     (if (l_key_exist l = 0 \<and> (secret \<noteq> secret0 \<or> \<not> caps_eq caps caps0)) \<or> l_key_exist l \<noteq> 0
      then (case caps of
              None \<Rightarrow>
                (if \<not> truthy secret
                 then (case generate_secret (urandom16 w) (time_time w) of
                         Inl e \<Rightarrow> ([], Inl (Stop (Raised e)))
                       | Inr _ \<Rightarrow> ([], Inl (Stop (Raised AttributeError))))
                 else ([], Inl (Stop (Raised AttributeError))))
            | Some c \<Rightarrow>
                (case create_key (env_container_binary w) (urandom16 w) (time_time w)
                        (p_cluster p) (p_user p) user_key_path (p_name p) secret c
                        (p_import_key p) file_path (is_containerized w) of
                   Inl e \<Rightarrow> ([], Inl (Stop (Raised e)))
                 | Inr cmd_list \<Rightarrow>
                     (case exec_commands (run_command w) cmd_list of
                        (tr, Inl e) \<Rightarrow> (tr, Inl (Stop (Raised e)))
                      | (tr, Inr r) \<Rightarrow>
                          (case r of (rc, cmd, out, err) \<Rightarrow>
                             if rc \<noteq> 0
                             then (tr, Inl (Stop (Exit_json
                                     (initial_result
                                        \<lparr>r_stdout := ''Couldn't create or update '' @ p_name p,
                                         r_stderr := err\<rparr>))))
                             else (tr, Inr ((bind_exec r l)\<lparr>l_changed := True\<rparr>))))))
      else ([], Inr l))"

text \<open>Lines 582 to 594: the key exists and equals what is asked for.\<close>

definition fetch_if_missing :: "params \<Rightarrow> world \<Rightarrow> string \<Rightarrow> string \<Rightarrow> branch" where
  "fetch_if_missing p w user_key_path file_path =
     (if \<not> isfile w file_path
      then (case exec_commands (run_command w)
                   (get_key (env_container_binary w) (p_cluster p) (p_user p) user_key_path
                      (p_name p) file_path (is_containerized w)) of
              (tr, Inl e) \<Rightarrow> (tr, Inl (Stop (Raised e)))
            | (tr, Inr r) \<Rightarrow>
                (case r of (rc, cmd, out, err) \<Rightarrow>
                   if rc \<noteq> 0
                   then (tr, Inl (Stop (Exit_json
                           (initial_result
                              \<lparr>r_rc := rc,
                               r_stdout := ''Couldn't fetch the key '' @ p_name p @ '' at ''
                                           @ file_path @ ''.''\<rparr>))))
                   else (tr, Inl (Stop (Exit_json
                           (initial_result\<lparr>r_stdout := msg_already (p_name p), r_rc := 0\<rparr>))))))
      else ([], Inl (Stop (Exit_json
              (initial_result\<lparr>r_stdout := msg_already (p_name p), r_rc := 0\<rparr>)))))"

text \<open>Lines 574 to 594 and 600: the key exists (\<open>key_exist == 0\<close>), \<open>out\<close> is its record.\<close>

definition existing_key ::
  "params \<Rightarrow> world \<Rightarrow> string \<Rightarrow> string \<Rightarrow> string \<Rightarrow> locals \<Rightarrow> branch" where
  "existing_key p w user_key_path file_path out l =
     (case json_decode w out of
        Inl m \<Rightarrow> ([], Inl (Stop (Raised (ValueError m))))
      | Inr info \<Rightarrow>
          (case info_record info of
             Raises e \<Rightarrow> ([], Inl (Stop (Raised e)))
           | Unmodelled \<Rightarrow> ([], Inl Stop_unmodelled)
           | Found (cur_key, cur_caps) \<Rightarrow>
               (let secret = (if \<not> truthy (p_secret p) then Some cur_key else p_secret p);
                    secret0 = Some cur_key;
                    caps = (if \<not> caps_truthy (p_caps p) then Some cur_caps else p_caps p);
                    caps0 = Some cur_caps
                in if secret = secret0 \<and> caps_eq caps caps0
                   then fetch_if_missing p w user_key_path file_path
                   else create_step p w user_key_path file_path secret caps secret0 caps0 l)))"

text \<open>Lines 549 to 608: states present and update.\<close>

definition present_branch :: "params \<Rightarrow> world \<Rightarrow> string \<Rightarrow> locals \<Rightarrow> branch" where
  "present_branch p w user_key_path l =
     (let file_path = keyring_file_path (isdir w) (p_dest p) (p_cluster p) (p_name p)
      in if p_import_key p
         then (case exec_commands (run_command w)
                      (info_key (env_container_binary w) (p_cluster p) (p_name p) (p_user p)
                         user_key_path (p_output_format p) (is_containerized w)) of
                 (tr, Inl e) \<Rightarrow> (tr, Inl (Stop (Raised e)))
               | (tr, Inr r) \<Rightarrow>
                   (case r of (rc, cmd, out, err) \<Rightarrow>
                      (let l1 = (bind_exec r l)\<lparr>l_key_exist := rc\<rparr>
                       in if \<not> caps_truthy (p_caps p) \<and> rc \<noteq> 0
                          then (tr, Inl (Stop (Raised (Fatal msg_caps_required))))
                          else if rc \<noteq> 0 \<and> p_secret p = None \<and> p_caps p = None
                          then (tr, Inl (Stop (Raised (Fatal msg_keyring_missing))))
                          else if rc = 0
                          then after tr (existing_key p w user_key_path file_path out l1)
                          else after tr
                                 (create_step p w user_key_path file_path (p_secret p) (p_caps p)
                                    (p_secret p) (p_caps p) l1))))
         else if (isfile w file_path \<and> \<not> truthy (p_secret p)) \<or> \<not> caps_truthy (p_caps p)
         then ([], Inl (Stop (Exit_json
                 (initial_result
                    \<lparr>r_stdout := p_name p @ '' already exists in '' @ p_dest p
                       @ '' you must provide secret *and* caps when import_key is False'',
                     r_rc := 0\<rparr>))))
         else create_step p w user_key_path file_path (p_secret p) (p_caps p) (p_secret p)
                (p_caps p) l)"

text \<open>Lines 610 to 617: state absent.\<close>

definition absent_branch :: "params \<Rightarrow> world \<Rightarrow> string \<Rightarrow> locals \<Rightarrow> branch" where
  "absent_branch p w user_key_path l =
     (if l_key_exist l = 0
      then (case exec_commands (run_command w)
                   (delete_key (env_container_binary w) (p_cluster p) (p_user p) user_key_path
                      (p_name p) (is_containerized w)) of
              (tr, Inl e) \<Rightarrow> (tr, Inl (Stop (Raised e)))
            | (tr, Inr r) \<Rightarrow>
                (case r of (rc, cmd, out, err) \<Rightarrow>
                   if rc = 0 then (tr, Inr ((bind_exec r l)\<lparr>l_changed := True\<rparr>))
                   else (tr, Inr (bind_exec r l))))
      else ([], Inr (l\<lparr>l_rc := Some 0\<rparr>)))"

text \<open>Lines 619 to 625: state info.\<close>

definition info_branch :: "params \<Rightarrow> world \<Rightarrow> string \<Rightarrow> locals \<Rightarrow> branch" where
  "info_branch p w user_key_path l =
     (case exec_commands (run_command w)
             (info_key (env_container_binary w) (p_cluster p) (p_name p) (p_user p)
                user_key_path (p_output_format p) (is_containerized w)) of
        (tr, Inl e) \<Rightarrow> (tr, Inl (Stop (Raised e)))
      | (tr, Inr r) \<Rightarrow>
          (case r of (rc, cmd, out, err) \<Rightarrow>
             if rc \<noteq> 0
             then (tr, Inl (Stop (Exit_json
                     (initial_result
                        \<lparr>r_stdout := ''skipped, since '' @ p_name p @ '' does not exist'',
                         r_rc := 0\<rparr>))))
             else (tr, Inr (bind_exec r l))))"

text \<open>Lines 627 to 629: state list.\<close>

definition list_branch :: "params \<Rightarrow> world \<Rightarrow> string \<Rightarrow> locals \<Rightarrow> branch" where
  "list_branch p w user_key_path l =
     (case exec_commands (run_command w)
             (list_keys (env_container_binary w) (p_cluster p) (p_user p) user_key_path
                (is_containerized w)) of
        (tr, Inl e) \<Rightarrow> (tr, Inl (Stop (Raised e)))
      | (tr, Inr r) \<Rightarrow> (tr, Inr (bind_exec r l)))"

text \<open>Lines 647 to 670: the loop over the entities found.\<close>

fun fetch_loop :: "params \<Rightarrow> world \<Rightarrow> string \<Rightarrow> string \<Rightarrow> string list \<Rightarrow> locals \<Rightarrow> branch" where
  "fetch_loop p w user user_key_path [] l = ([], Inr l)"
| "fetch_loop p w user user_key_path (entity # entities) l =
     (case build_key_path (p_cluster p) entity of
        Inl e \<Rightarrow> ([], Inl (Stop (Raised e)))
      | Inr None \<Rightarrow> ([], Inl (Stop (Raised (Fatal ''Failed to build key path, no entity yet?''))))
      | Inr (Some key_path) \<Rightarrow>
          if isfile w key_path then fetch_loop p w user user_key_path entities l
          else (case info_key (env_container_binary w) (p_cluster p) entity user user_key_path
                       ''plain'' (is_containerized w) of
                  [] \<Rightarrow> ([], Inl (Stop (Raised IndexError)))
                | c # cs \<Rightarrow>
                    (case exec_commands (run_command w) ((c @ [''-o'', key_path]) # cs) of
                       (tr, Inl e) \<Rightarrow> (tr, Inl (Stop (Raised e)))
                     | (tr, Inr r) \<Rightarrow>
                         after tr (fetch_loop p w user user_key_path entities (bind_exec r l)))))"

text \<open>
  Lines 631 to 670: state fetch\_initial\_keys. The host name is cut at its first dot
  (\<open>split('.', 1)[0]\<close>).
\<close>

definition fetch_initial_keys_branch :: "params \<Rightarrow> world \<Rightarrow> locals \<Rightarrow> branch" where
  "fetch_initial_keys_branch p w l =
     (let hostname = takeWhile (\<lambda>c. c \<noteq> CHR ''.'') (gethostname w);
          user = ''mon.'';
          user_key_path = path_join ''/var/lib/ceph/mon/''
                            [p_cluster p @ ''-'' @ hostname @ ''/keyring'']
      in case exec_commands (run_command w)
                (list_keys (env_container_binary w) (p_cluster p) user user_key_path
                   (is_containerized w)) of
           (tr, Inl e) \<Rightarrow> (tr, Inl (Stop (Raised e)))
         | (tr, Inr r) \<Rightarrow>
             (case r of (rc, cmd, out, err) \<Rightarrow>
                if rc \<noteq> 0
                then (tr, Inl (Stop (Exit_json
                        (initial_result
                           \<lparr>r_stdout := ''failed to retrieve ceph keys'',
                            r_sdterr := Some err, r_rc := 0\<rparr>))))
                else (case lookup_ceph_initial_entities (json_decode w) (env_rolling_update w)
                             out of
                        Inl e \<Rightarrow> (tr, Inl (Stop (Raised e)))
                      | Inr entities \<Rightarrow>
                          after tr
                            (fetch_loop p w user user_key_path entities (bind_exec r l)))))"

text \<open>Lines 671 to 676: state generate\_secret.\<close>

definition generate_secret_branch :: "world \<Rightarrow> locals \<Rightarrow> branch" where
  "generate_secret_branch w l =
     (case generate_secret (urandom16 w) (time_time w) of
        Inl e \<Rightarrow> ([], Inl (Stop (Raised e)))
      | Inr s \<Rightarrow>
          ([], Inr (l\<lparr>l_out := Some s, l_cmd := Some (CmdStr []), l_rc := Some 0,
                      l_err := Some [], l_changed := True\<rparr>)))"

subsection \<open>run\_module: the end (lines 678 to 695)\<close>

text \<open>
  The result dictionary reads \<open>cmd\<close>, \<open>rc\<close>, \<open>out\<close> and \<open>err\<close> in this order; a variable
  that no branch has bound raises UnboundLocalError.
\<close>

definition finish :: "locals \<Rightarrow> outcome" where
  "finish l =
     (case l_cmd l of
        None \<Rightarrow> Raised (UnboundLocalError ''cmd'')
      | Some cmd \<Rightarrow>
          (case l_rc l of
             None \<Rightarrow> Raised (UnboundLocalError ''rc'')
           | Some rc \<Rightarrow>
               (case l_out l of
                  None \<Rightarrow> Raised (UnboundLocalError ''out'')
                | Some out \<Rightarrow>
                    (case l_err l of
                       None \<Rightarrow> Raised (UnboundLocalError ''err'')
                     | Some err \<Rightarrow>
                         (let result = \<lparr>r_cmd = Some cmd, r_rc = rc,
                                         r_stdout = rstrip_crlf out,
                                         r_stderr = rstrip_crlf err, r_sdterr = None,
                                         r_changed = l_changed l\<rparr>
                          in if rc \<noteq> 0 then Fail_json ''non-zero return code'' result
                             else Exit_json result)))))"

definition finish_branch :: "branch \<Rightarrow> argv list \<times> ending" where
  "finish_branch b =
     (case b of
        (tr, Inl e) \<Rightarrow> (tr, e)
      | (tr, Inr l) \<Rightarrow> (tr, Stop (finish l)))"

subsection \<open>run\_module\<close>

definition default_user_key_path :: "params \<Rightarrow> string" where
  "default_user_key_path p =
     (case p_user_key p of
        None \<Rightarrow> path_join ''/etc/ceph'' [p_cluster p @ ''.'' @ p_user p @ ''.keyring'']
      | Some k \<Rightarrow>
          if k = [] then path_join ''/etc/ceph'' [p_cluster p @ ''.'' @ p_user p @ ''.keyring'']
          else k)"

definition run_module :: "params \<Rightarrow> world \<Rightarrow> argv list \<times> ending" where
  "run_module p w =
     (if p_check_mode p then ([], Stop (Exit_json initial_result))
      else (let l = initial_locals;
                user_key_path = default_user_key_path p
            in finish_branch
                 (case p_state p of
                    St_present \<Rightarrow> present_branch p w user_key_path l
                  | St_update \<Rightarrow> present_branch p w user_key_path l
                  | St_absent \<Rightarrow> absent_branch p w user_key_path l
                  | St_info \<Rightarrow> info_branch p w user_key_path l
                  | St_list \<Rightarrow> list_branch p w user_key_path l
                  | St_fetch_initial_keys \<Rightarrow> fetch_initial_keys_branch p w l
                  | St_generate_secret \<Rightarrow> generate_secret_branch w l)))"

section \<open>Definitions used to state the properties\<close>

text \<open>The arguments one capability contributes to the command line.\<close>

definition caps_triple :: "string option \<Rightarrow> string \<times> string \<Rightarrow> string list" where
  "caps_triple t kv = (if t = Some ''ceph-authtool'' then [''--cap''] else []) @ [fst kv, snd kv]"

text \<open>
  The flattening as the specification words it: pairs with an empty key dropped, the rest
  sorted by subsystem name.
\<close>

definition generate_caps_sorted :: "string option \<Rightarrow> caps \<Rightarrow> string list" where
  "generate_caps_sorted t caps =
     concat (map (caps_triple t) (sort_key fst (filter (\<lambda>kv. fst kv \<noteq> []) caps)))"

text \<open>A decoded listing that holds five of the seven well-known entities and the monitor.\<close>

definition five_of_seven :: json where
  "five_of_seven =
     JObj [(''auth_dump'',
            JArr [JObj [(''entity'', JStr ''mon.''), (''key'', JStr ''AQ=='')],
                  JObj [(''entity'', JStr ''client.admin'')],
                  JObj [(''entity'', JStr ''client.bootstrap-mds'')],
                  JObj [(''entity'', JStr ''client.bootstrap-mgr'')],
                  JObj [(''entity'', JStr ''client.bootstrap-osd'')],
                  JObj [(''entity'', JStr ''client.bootstrap-rbd'')]])]"

text \<open>
  A decoded listing of seven matching records that hold six of the seven well-known
  entities: \<open>client.admin\<close> is listed twice and \<open>client.bootstrap-rgw\<close> is missing.
\<close>

definition six_in_seven :: json where
  "six_in_seven =
     JObj [(''auth_dump'',
            JArr [JObj [(''entity'', JStr ''client.admin'')],
                  JObj [(''entity'', JStr ''client.admin'')],
                  JObj [(''entity'', JStr ''client.bootstrap-mds'')],
                  JObj [(''entity'', JStr ''client.bootstrap-mgr'')],
                  JObj [(''entity'', JStr ''client.bootstrap-osd'')],
                  JObj [(''entity'', JStr ''client.bootstrap-rbd'')],
                  JObj [(''entity'', JStr ''client.bootstrap-rbd-mirror'')]])]"

text \<open>The position of an element in a list.\<close>

fun index_of :: "'a \<Rightarrow> 'a list \<Rightarrow> nat option" where
  "index_of x [] = None"
| "index_of x (y # ys) = (if x = y then Some 0 else map_option Suc (index_of x ys))"

text \<open>
  Decoding of base64, to state what an encoded secret holds: the module itself never
  decodes.
\<close>

definition b64val :: "char \<Rightarrow> nat option" where
  "b64val c = index_of c b64alphabet"

definition decode_quad :: "char \<Rightarrow> char \<Rightarrow> char \<Rightarrow> char \<Rightarrow> nat list option" where
  "decode_quad c1 c2 c3 c4 =
     (case (b64val c1, b64val c2) of
        (Some x1, Some x2) \<Rightarrow>
          (if c3 = CHR ''='' \<and> c4 = CHR ''='' then Some [x1 * 4 + x2 div 16]
           else (case b64val c3 of
                   None \<Rightarrow> None
                 | Some x3 \<Rightarrow>
                     if c4 = CHR ''=''
                     then Some [x1 * 4 + x2 div 16, (x2 mod 16) * 16 + x3 div 4]
                     else (case b64val c4 of
                             None \<Rightarrow> None
                           | Some x4 \<Rightarrow>
                               Some [x1 * 4 + x2 div 16, (x2 mod 16) * 16 + x3 div 4,
                                     (x3 mod 4) * 64 + x4])))
      | _ \<Rightarrow> None)"

fun b64decode :: "string \<Rightarrow> nat list option" where
  "b64decode [] = Some []"
| "b64decode (c1 # c2 # c3 # c4 # rest) =
     (case decode_quad c1 c2 c3 c4 of
        None \<Rightarrow> None
      | Some bs \<Rightarrow> (case b64decode rest of None \<Rightarrow> None | Some r \<Rightarrow> Some (bs @ r)))"
| "b64decode _ = None"

text \<open>
  The secret as the specification words its header: format version int16, creation time
  int32, reserved int16, key length int16.
\<close>

definition generate_secret_spec :: "nat list \<Rightarrow> int \<Rightarrow> error + string" where
  "generate_secret_spec key now =
     (case struct_pack ''<hihh'' [1, now, 0, 16] of
        Inl e \<Rightarrow> Inl e
      | Inr header \<Rightarrow> Inr (b64encode (header @ key)))"

text \<open>
  A request and a cluster to run it on: the entity \<open>client.foo\<close> is in the registry (every
  command exits with 0 and \<open>get\<close> prints its record), and no keyring file exists yet.
\<close>

definition foo_params :: params where
  "foo_params =
     \<lparr>p_state = St_present, p_name = ''client.foo'', p_cluster = ''ceph'', p_caps = None,
      p_secret = None, p_import_key = True, p_dest = ''/etc/ceph/'', p_user = ''client.admin'',
      p_user_key = None, p_output_format = ''json'', p_check_mode = False\<rparr>"

definition foo_record :: json where
  "foo_record =
     JArr [JObj [(''entity'', JStr ''client.foo''), (''key'', JStr ''AQ==''),
                 (''caps'', JObj [(''mon'', JStr ''allow r'')])]]"

definition foo_world :: world where
  "foo_world =
     \<lparr>run_command = (\<lambda>argv. (0, ''record'', [])),
      isdir = (\<lambda>d. d = ''/etc/ceph/''),
      isfile = (\<lambda>f. False),
      json_decode = (\<lambda>s. Inr foo_record),
      env_container_image = None,
      env_container_binary = ''podman'',
      env_rolling_update = None,
      urandom16 = replicate 16 0,
      time_time = 0,
      gethostname = ''mon0''\<rparr>"

text \<open>The commands of a run, named to state what a run executes.\<close>

definition info_cmd :: "params \<Rightarrow> world \<Rightarrow> argv" where
  "info_cmd p w =
     generate_cmd (env_container_binary w) (p_cluster p)
       [''get'', p_name p, ''-f'', p_output_format p] (p_user p) (default_user_key_path p)
       (is_containerized w)"

definition fetch_cmd :: "params \<Rightarrow> world \<Rightarrow> argv" where
  "fetch_cmd p w =
     generate_cmd (env_container_binary w) (p_cluster p)
       [''get'', p_name p, ''-o'',
        keyring_file_path (isdir w) (p_dest p) (p_cluster p) (p_name p)]
       (p_user p) (default_user_key_path p) (is_containerized w)"

definition authtool_cmd :: "params \<Rightarrow> world \<Rightarrow> string \<Rightarrow> caps \<Rightarrow> argv" where
  "authtool_cmd p w secret c =
     generate_ceph_authtool_cmd (env_container_binary w) (p_cluster p) (p_name p) secret c
       (keyring_file_path (isdir w) (p_dest p) (p_cluster p) (p_name p)) (is_containerized w)"

definition get_or_create_cmd :: "params \<Rightarrow> world \<Rightarrow> caps \<Rightarrow> argv" where
  "get_or_create_cmd p w c =
     generate_cmd (env_container_binary w) (p_cluster p)
       ([''get-or-create'', p_name p] @ generate_caps None c
        @ [''-o'', keyring_file_path (isdir w) (p_dest p) (p_cluster p) (p_name p)])
       (p_user p) (default_user_key_path p) (is_containerized w)"

definition msg_provide :: "params \<Rightarrow> string" where
  "msg_provide p =
     p_name p @ '' already exists in '' @ p_dest p
     @ '' you must provide secret *and* caps when import_key is False''"

section \<open>Properties\<close>

subsection \<open>Flattening of capabilities\<close>

lemma generate_caps_loop_eq:
  "generate_caps_loop t caps acc =
     acc @ concat (map (caps_triple t) (filter (\<lambda>kv. fst kv \<noteq> []) caps))"
  by (induction t caps acc rule: generate_caps_loop.induct) (simp_all add: caps_triple_def)

text \<open>
  C8, as the code has it: for every capabilities map \<open>generate_caps\<close> lists the pairs in the
  iteration order of the map, each as its key and value (after \<open>--cap\<close> for ceph-authtool),
  and leaves out every pair whose key is the empty string. The output is a function of the
  map and its order; it is not sorted.
\<close>

theorem generate_caps_iteration_order:
  "generate_caps t caps = concat (map (caps_triple t) (filter (\<lambda>kv. fst kv \<noteq> []) caps))"
  by (simp add: generate_caps_def generate_caps_loop_eq)

theorem generate_caps_iteration_order_witness:
  "generate_caps (Some ''ceph-authtool'')
     [(''osd'', ''allow rwx''), ('''', ''x''), (''mon'', ''allow *'')]
   = [''--cap'', ''osd'', ''allow rwx'', ''--cap'', ''mon'', ''allow *'']"
  using generate_caps_iteration_order
          [of "Some ''ceph-authtool''"
              "[(''osd'', ''allow rwx''), ('''', ''x''), (''mon'', ''allow *'')]"]
  by (simp add: caps_triple_def)

text \<open>
  C8 as stated fails: a map that lists \<open>osd\<close> before \<open>mon\<close> is flattened in that order,
  while the sorted flattening puts \<open>mon\<close> first.
\<close>

theorem generate_caps_sorted_counterexample:
  "generate_caps None [(''osd'', ''allow rwx''), (''mon'', ''allow *'')]
     = [''osd'', ''allow rwx'', ''mon'', ''allow *'']
   \<and> generate_caps_sorted None [(''osd'', ''allow rwx''), (''mon'', ''allow *'')]
     = [''mon'', ''allow *'', ''osd'', ''allow rwx'']
   \<and> \<not> sorted [''osd'', ''mon'']"
  by (simp add: generate_caps_def generate_caps_sorted_def caps_triple_def)

subsection \<open>Key path of present and update\<close>

lemma path_join_single:
  "path_join d [f] =
     (if f \<noteq> [] \<and> hd f = CHR ''/'' then f
      else if d = [] \<or> last d = CHR ''/'' then d @ f
      else d @ ''/'' @ f)"
  by (simp add: path_join_def path_join_step_def)

text \<open>
  C9: the key path of present and update. A destination that is not a directory is the file
  path as it is; otherwise the file name is \<open><cluster>.keyring\<close> when the destination
  contains \<open>bootstrap\<close>, whatever the entity, and \<open><cluster>.<entity>.keyring\<close> when it does
  not, joined onto the destination by \<open>os.path.join\<close>. Destination \<open>/etc/ceph/\<close>, cluster
  \<open>ceph\<close> and entity \<open>client.admin\<close> give \<open>/etc/ceph/ceph.client.admin.keyring\<close>.
\<close>

theorem keyring_file_path_rules:
  "(\<not> is_dir dest \<longrightarrow> keyring_file_path is_dir dest cluster name = dest)
   \<and> (is_dir dest \<and> sublist ''bootstrap'' dest \<longrightarrow>
        keyring_file_path is_dir dest cluster name = path_join dest [cluster @ ''.keyring''])
   \<and> (is_dir dest \<and> \<not> sublist ''bootstrap'' dest \<longrightarrow>
        keyring_file_path is_dir dest cluster name
          = path_join dest [cluster @ ''.'' @ name @ ''.keyring''])
   \<and> (is_dir ''/etc/ceph/'' \<longrightarrow>
        keyring_file_path is_dir ''/etc/ceph/'' ''ceph'' ''client.admin''
          = ''/etc/ceph/ceph.client.admin.keyring'')"
  by (simp add: keyring_file_path_def path_join_single sublist_Cons_right)

theorem keyring_file_path_rules_witness:
  "keyring_file_path (\<lambda>d. d = ''/etc/ceph/'') ''/etc/ceph/'' ''ceph'' ''client.admin''
     = ''/etc/ceph/ceph.client.admin.keyring''
   \<and> keyring_file_path (\<lambda>d. d = ''/var/lib/ceph/bootstrap-rgw'') ''/var/lib/ceph/bootstrap-rgw''
       ''ceph'' ''client.bootstrap-rgw'' = ''/var/lib/ceph/bootstrap-rgw/ceph.keyring''
   \<and> keyring_file_path (\<lambda>d. False) ''/etc/ceph/ceph.mgr.ceph-mon2.keyring'' ''ceph'' ''mgr.x''
       = ''/etc/ceph/ceph.mgr.ceph-mon2.keyring''"
  using keyring_file_path_rules [of "\<lambda>d. d = ''/etc/ceph/''" "''/etc/ceph/''" "''ceph''" "''client.admin''"]
        keyring_file_path_rules [of "\<lambda>d. d = ''/var/lib/ceph/bootstrap-rgw''" "''/var/lib/ceph/bootstrap-rgw''" "''ceph''" "''client.bootstrap-rgw''"]
        keyring_file_path_rules [of "\<lambda>d. False" "''/etc/ceph/ceph.mgr.ceph-mon2.keyring''" "''ceph''" "''mgr.x''"]
  by (simp add: path_join_single sublist_Cons_right)

subsection \<open>The boolean parser\<close>

lemma str_to_bool_lower:
  "str_to_bool v =
     (if lower (py_str v) = ''true'' then Inr True
      else if lower (py_str v) = ''false'' then Inr False
      else Inl (ValueError (''Invalid input value: '' @ lower (py_str v))))"
  by (cases v) (simp_all add: str_to_bool_def Let_def)

text \<open>
  C10: \<open>str_to_bool\<close> returns True exactly when the lower-cased string form of its input is
  \<open>true\<close> and False exactly when it is \<open>false\<close>; the booleans True and False are accepted
  through \<open>str\<close>; every other value, such as \<open>1\<close>, \<open>yes\<close> or the empty string, raises
  ValueError. When the listing does not match seven entities, an override variable set to
  such a value makes \<open>lookup_ceph_initial_entities\<close> raise that ValueError.
\<close>

theorem str_to_bool_cases:
  "(str_to_bool v = Inr True \<longleftrightarrow> lower (py_str v) = ''true'')
   \<and> (str_to_bool v = Inr False \<longleftrightarrow> lower (py_str v) = ''false'')
   \<and> (lower (py_str v) \<noteq> ''true'' \<and> lower (py_str v) \<noteq> ''false'' \<longrightarrow>
        str_to_bool v = Inl (ValueError (''Invalid input value: '' @ lower (py_str v))))
   \<and> str_to_bool (PBool True) = Inr True
   \<and> str_to_bool (PBool False) = Inr False
   \<and> str_to_bool (PStr ''1'') = Inl (ValueError ''Invalid input value: 1'')
   \<and> str_to_bool (PStr ''yes'') = Inl (ValueError ''Invalid input value: yes'')
   \<and> str_to_bool (PStr []) = Inl (ValueError ''Invalid input value: '')
   \<and> (lower s \<noteq> ''true'' \<and> lower s \<noteq> ''false'' \<and> json_loads out = Inr d
        \<and> matched_entities d = Inr entities \<and> length entities \<noteq> length CEPH_INITIAL_KEYS \<longrightarrow>
        lookup_ceph_initial_entities json_loads (Some s) out
          = Inl (ValueError (''Invalid input value: '' @ lower s)))"
  by (simp add: str_to_bool_lower lower_def lower_char_def lookup_ceph_initial_entities_def
        check_initial_entities_def environ_get_rolling_update_def)

theorem str_to_bool_cases_witness:
  "str_to_bool (PStr ''TRUE'') = Inr True
   \<and> str_to_bool (PStr ''False'') = Inr False
   \<and> lookup_ceph_initial_entities (\<lambda>x. Inr (JObj [(''auth_dump'', JArr [])])) (Some ''1'') []
       = Inl (ValueError ''Invalid input value: 1'')"
  using str_to_bool_cases [of "PStr ''TRUE''" "''1''" "\<lambda>x. Inr (JObj [(''auth_dump'', JArr [])])"
          "[]" "JObj [(''auth_dump'', JArr [])]" "[]"]
        str_to_bool_cases [of "PStr ''False''" "''1''" "\<lambda>x. Inr (JObj [(''auth_dump'', JArr [])])"
          "[]" "JObj [(''auth_dump'', JArr [])]" "[]"]
  by (simp add: lower_def lower_char_def matched_entities_def CEPH_INITIAL_KEYS_def)

subsection \<open>Lookup of the initial entities\<close>

lemma entity_items_subset:
  "set entities \<subseteq> set CEPH_INITIAL_KEYS \<Longrightarrow>
   set (entity_items items entities) \<subseteq> set CEPH_INITIAL_KEYS"
proof (induction items entities rule: entity_items.induct)
  case (1 entities)
  then show ?case by simp
next
  case (2 k v items entities)
  then show ?case by (cases v) (auto split: if_splits)
qed

lemma auth_dump_loop_subset:
  "auth_dump_loop keys entities = Inr r \<Longrightarrow> set entities \<subseteq> set CEPH_INITIAL_KEYS \<Longrightarrow>
   set r \<subseteq> set CEPH_INITIAL_KEYS"
proof (induction keys arbitrary: entities)
  case Nil
  then show ?case by simp
next
  case (Cons key keys)
  then show ?case by (cases key) (auto dest: entity_items_subset)
qed

lemma matched_entities_subset:
  "matched_entities d = Inr entities \<Longrightarrow> set entities \<subseteq> set CEPH_INITIAL_KEYS"
  by (auto simp: matched_entities_def split: json.splits option.splits if_splits
           dest: auth_dump_loop_subset)

lemma distinct_initial_keys: "distinct CEPH_INITIAL_KEYS"
  by (simp add: CEPH_INITIAL_KEYS_def)

lemma length_initial_keys: "length CEPH_INITIAL_KEYS = 7"
  by (simp add: CEPH_INITIAL_KEYS_def)

lemma missing_set:
  "set (filter (\<lambda>e. e \<notin> set entities) CEPH_INITIAL_KEYS) = set CEPH_INITIAL_KEYS - set entities"
  by auto

lemma missing_length:
  assumes "set entities \<subseteq> set CEPH_INITIAL_KEYS"
  shows "length (filter (\<lambda>e. e \<notin> set entities) CEPH_INITIAL_KEYS) = 7 - card (set entities)"
proof -
  have "distinct (filter (\<lambda>e. e \<notin> set entities) CEPH_INITIAL_KEYS)"
    using distinct_initial_keys by simp
  then have "length (filter (\<lambda>e. e \<notin> set entities) CEPH_INITIAL_KEYS)
             = card (set CEPH_INITIAL_KEYS - set entities)"
    using distinct_card [of "filter (\<lambda>e. e \<notin> set entities) CEPH_INITIAL_KEYS"] missing_set
    by simp
  also have "\<dots> = card (set CEPH_INITIAL_KEYS) - card (set entities)"
    using assms by (simp add: card_Diff_subset)
  also have "card (set CEPH_INITIAL_KEYS) = 7"
    using distinct_card [OF distinct_initial_keys] length_initial_keys by simp
  finally show ?thesis .
qed

lemma missing_nonempty:
  assumes "length entities < length CEPH_INITIAL_KEYS"
  shows "filter (\<lambda>e. e \<notin> set entities) CEPH_INITIAL_KEYS \<noteq> []"
proof
  assume "filter (\<lambda>e. e \<notin> set entities) CEPH_INITIAL_KEYS = []"
  then have "set CEPH_INITIAL_KEYS \<subseteq> set entities"
    by (auto simp: filter_empty_conv)
  then have "card (set CEPH_INITIAL_KEYS) \<le> card (set entities)"
    by (simp add: card_mono)
  moreover have "card (set CEPH_INITIAL_KEYS) = length CEPH_INITIAL_KEYS"
    using distinct_card [OF distinct_initial_keys] .
  moreover have "card (set entities) \<le> length entities"
    by (rule card_length)
  ultimately show False using assms by simp
qed

lemma fewer_members_fewer_records:
  assumes "set entities \<subseteq> set CEPH_INITIAL_KEYS" and "distinct entities"
    and "\<not> set CEPH_INITIAL_KEYS \<subseteq> set entities"
  shows "length entities < length CEPH_INITIAL_KEYS"
proof -
  have "set entities \<subset> set CEPH_INITIAL_KEYS"
    using assms(1,3) by auto
  then have "card (set entities) < card (set CEPH_INITIAL_KEYS)"
    by (intro psubset_card_mono) simp_all
  then show ?thesis
    using distinct_card [OF assms(2)] distinct_card [OF distinct_initial_keys] by simp
qed

text \<open>
  C2, as the code has it: during the lookup of the initial keys, when the decoded listing
  holds fewer than seven matching records (records whose entity is a well-known one, each
  record counted) and the override is not set (the variable is absent, or reads \<open>false\<close>),
  the lookup fails fatally, and the message lists exactly the well-known entities that are
  not among the matched ones: there is at least one, and their number is seven minus the
  number of distinct matched entities. When the override reads \<open>true\<close> the matched entities
  are returned as they are. For a listing that names no entity twice, matching fewer than
  all seven members is matching fewer than seven records.
\<close>

theorem lookup_incomplete_set:
  assumes "json_loads out = Inr d" and "matched_entities d = Inr entities"
  shows "(length entities < length CEPH_INITIAL_KEYS
            \<and> (ru = None \<or> (\<exists>s. ru = Some s \<and> lower s = ''false'')) \<longrightarrow>
          lookup_ceph_initial_entities json_loads ru out
            = Inl (Fatal (''initial keyring does not contain keys: ''
                          @ join '' '' (filter (\<lambda>e. e \<notin> set entities) CEPH_INITIAL_KEYS)))
          \<and> set (filter (\<lambda>e. e \<notin> set entities) CEPH_INITIAL_KEYS)
              = set CEPH_INITIAL_KEYS - set entities
          \<and> length (filter (\<lambda>e. e \<notin> set entities) CEPH_INITIAL_KEYS)
              = 7 - card (set entities)
          \<and> filter (\<lambda>e. e \<notin> set entities) CEPH_INITIAL_KEYS \<noteq> [])
         \<and> ((\<exists>s. ru = Some s \<and> lower s = ''true'') \<longrightarrow>
              lookup_ceph_initial_entities json_loads ru out = Inr entities)
         \<and> (distinct entities \<and> \<not> set CEPH_INITIAL_KEYS \<subseteq> set entities \<longrightarrow>
              length entities < length CEPH_INITIAL_KEYS)"
proof -
  have sub: "set entities \<subseteq> set CEPH_INITIAL_KEYS"
    using assms(2) by (rule matched_entities_subset)
  have off: "ru = None \<or> (\<exists>s. ru = Some s \<and> lower s = ''false'') \<Longrightarrow>
             str_to_bool (environ_get_rolling_update ru) = Inr False"
    by (auto simp: environ_get_rolling_update_def str_to_bool_def lower_def lower_char_def)
  have on: "\<exists>s. ru = Some s \<and> lower s = ''true'' \<Longrightarrow>
            str_to_bool (environ_get_rolling_update ru) = Inr True"
    by (auto simp: environ_get_rolling_update_def str_to_bool_def)
  have main: "(length entities < length CEPH_INITIAL_KEYS
            \<and> (ru = None \<or> (\<exists>s. ru = Some s \<and> lower s = ''false'')) \<longrightarrow>
          lookup_ceph_initial_entities json_loads ru out
            = Inl (Fatal (''initial keyring does not contain keys: ''
                          @ join '' '' (filter (\<lambda>e. e \<notin> set entities) CEPH_INITIAL_KEYS)))
          \<and> set (filter (\<lambda>e. e \<notin> set entities) CEPH_INITIAL_KEYS)
              = set CEPH_INITIAL_KEYS - set entities
          \<and> length (filter (\<lambda>e. e \<notin> set entities) CEPH_INITIAL_KEYS)
              = 7 - card (set entities)
          \<and> filter (\<lambda>e. e \<notin> set entities) CEPH_INITIAL_KEYS \<noteq> [])
         \<and> ((\<exists>s. ru = Some s \<and> lower s = ''true'') \<longrightarrow>
              lookup_ceph_initial_entities json_loads ru out = Inr entities)"
    using assms sub off on missing_length [OF sub] missing_nonempty [of entities]
    by (auto simp: lookup_ceph_initial_entities_def check_initial_entities_def)
  have rec: "distinct entities \<and> \<not> set CEPH_INITIAL_KEYS \<subseteq> set entities \<longrightarrow>
             length entities < length CEPH_INITIAL_KEYS"
    using fewer_members_fewer_records [OF sub] by blast
  from main rec show ?thesis by blast
qed

lemma matched_five:
  "matched_entities five_of_seven =
     Inr [''client.admin'', ''client.bootstrap-mds'', ''client.bootstrap-mgr'',
          ''client.bootstrap-osd'', ''client.bootstrap-rbd'']"
  by (simp add: matched_entities_def five_of_seven_def CEPH_INITIAL_KEYS_def)

theorem lookup_incomplete_set_witness:
  "lookup_ceph_initial_entities (\<lambda>x. Inr five_of_seven) None ''{}''
     = Inl (Fatal ''initial keyring does not contain keys: client.bootstrap-rbd-mirror client.bootstrap-rgw'')
   \<and> lookup_ceph_initial_entities (\<lambda>x. Inr five_of_seven) (Some ''True'') ''{}''
     = Inr [''client.admin'', ''client.bootstrap-mds'', ''client.bootstrap-mgr'',
            ''client.bootstrap-osd'', ''client.bootstrap-rbd'']"
  using lookup_incomplete_set [of "\<lambda>x. Inr five_of_seven" "''{}''" five_of_seven
          "[''client.admin'', ''client.bootstrap-mds'', ''client.bootstrap-mgr'',
            ''client.bootstrap-osd'', ''client.bootstrap-rbd'']" None]
        lookup_incomplete_set [of "\<lambda>x. Inr five_of_seven" "''{}''" five_of_seven
          "[''client.admin'', ''client.bootstrap-mds'', ''client.bootstrap-mgr'',
            ''client.bootstrap-osd'', ''client.bootstrap-rbd'']" "Some ''True''"]
        matched_five
  by (simp add: CEPH_INITIAL_KEYS_def lower_def lower_char_def)

text \<open>
  C2 as stated fails: a listing of seven matching records in which \<open>client.admin\<close> appears
  twice matches six of the seven well-known entities, and with the override unset the lookup
  returns the seven records and does not fail, although \<open>client.bootstrap-rgw\<close> is missing.
\<close>

theorem lookup_incomplete_set_counterexample:
  "lookup_ceph_initial_entities (\<lambda>x. Inr six_in_seven) None ''{}''
     = Inr [''client.admin'', ''client.admin'', ''client.bootstrap-mds'',
            ''client.bootstrap-mgr'', ''client.bootstrap-osd'', ''client.bootstrap-rbd'',
            ''client.bootstrap-rbd-mirror'']
   \<and> ''client.bootstrap-rgw'' \<in> set CEPH_INITIAL_KEYS
   \<and> ''client.bootstrap-rgw''
       \<notin> set [''client.admin'', ''client.admin'', ''client.bootstrap-mds'',
               ''client.bootstrap-mgr'', ''client.bootstrap-osd'', ''client.bootstrap-rbd'',
               ''client.bootstrap-rbd-mirror'']"
  by (simp add: lookup_ceph_initial_entities_def matched_entities_def six_in_seven_def
        check_initial_entities_def CEPH_INITIAL_KEYS_def)

subsection \<open>The registry command of create\_key\<close>




subsection \<open>The secret\<close>

lemma div16: "x < 16 \<Longrightarrow> (k * 16 + x) div 16 = (k::nat)" by simp
lemma mod16: "x < 16 \<Longrightarrow> (k * 16 + x) mod 16 = (x::nat)" by simp
lemma div4: "x < 4 \<Longrightarrow> (k * 4 + x) div 4 = (k::nat)" by simp
lemma mod4: "x < 4 \<Longrightarrow> (k * 4 + x) mod 4 = (x::nat)" by simp

lemma b16: "(b::nat) < 256 \<Longrightarrow> b div 16 < 16" by simp
lemma c64: "(c::nat) < 256 \<Longrightarrow> c div 64 < 4" by simp
lemma a4: "(a::nat) < 256 \<Longrightarrow> a div 4 < 64" by simp

lemma e1: "(b::nat) < 256 \<Longrightarrow> (a div 4) * 4 + ((a mod 4) * 16 + b div 16) div 16 = a"
  by (simp add: div16 b16)
lemma e2: "(c::nat) < 256 \<Longrightarrow> b < 256 \<Longrightarrow>
  (((a mod 4) * 16 + b div 16) mod 16) * 16 + ((b mod 16) * 4 + c div 64) div 4 = b"
  by (simp add: mod16 div4 b16 c64)
lemma e3: "(c::nat) < 256 \<Longrightarrow> (((b mod 16) * 4 + c div 64) mod 4) * 64 + c mod 64 = c"
  by (simp add: mod4 c64)
lemma e2b: "(b::nat) < 256 \<Longrightarrow>
  (((a mod 4) * 16 + b div 16) mod 16) * 16 + ((b mod 16) * 4) div 4 = b"
  by (simp add: mod16 b16)
lemma e1b: "(a div 4) * 4 + ((a mod 4) * 16) div 16 = (a::nat)"
  by simp
lemma r2: "(b::nat) < 256 \<Longrightarrow> (a mod 4) * 16 + b div 16 < 64"
proof -
  assume "b < 256"
  then have "b div 16 < 16" by simp
  moreover have "a mod 4 < 4" by simp
  ultimately show ?thesis by linarith
qed
lemma r3: "(c::nat) < 256 \<Longrightarrow> (b mod 16) * 4 + c div 64 < 64"
proof -
  assume "c < 256"
  then have "c div 64 < 4" by simp
  moreover have "b mod 16 < 16" by simp
  ultimately show ?thesis by linarith
qed
lemma r2b: "(a mod 4) * 16 < (64::nat)"
proof -
  have "a mod 4 < 4" by simp
  then show ?thesis by linarith
qed
lemma r3b: "(b mod 16) * 4 < (64::nat)"
proof -
  have "b mod 16 < 16" by simp
  then show ?thesis by linarith
qed
lemma index_of_nth:
  "distinct xs \<Longrightarrow> n < length xs \<Longrightarrow> index_of (xs ! n) xs = Some n"
proof (induction xs arbitrary: n)
  case Nil
  then show ?case by simp
next
  case (Cons y ys)
  show ?case
  proof (cases n)
    case 0
    then show ?thesis by simp
  next
    case (Suc m)
    with Cons.prems have "m < length ys" "ys ! m \<noteq> y" "distinct ys"
      by auto
    with Cons.IH [of m] Suc show ?thesis by simp
  qed
qed

lemma distinct_b64alphabet: "distinct b64alphabet"
  by (simp add: b64alphabet_def)

lemma length_b64alphabet: "length b64alphabet = 64"
  by (simp add: b64alphabet_def)

lemma b64val_char: "n < 64 \<Longrightarrow> b64val (b64char n) = Some n"
  unfolding b64val_def b64char_def
  by (rule index_of_nth [OF distinct_b64alphabet]) (simp add: length_b64alphabet)

lemma pad_not_in_alphabet: "CHR ''='' \<notin> set b64alphabet"
  by (simp add: b64alphabet_def)

lemma b64char_not_pad: "n < 64 \<Longrightarrow> b64char n \<noteq> CHR ''=''"
proof -
  assume "n < 64"
  then have "b64char n \<in> set b64alphabet"
    unfolding b64char_def by (simp add: length_b64alphabet)
  with pad_not_in_alphabet show ?thesis by auto
qed


lemma decode_quad3:
  assumes "a < 256" "b < 256" "c < 256"
  shows "decode_quad (b64char (a div 4)) (b64char ((a mod 4) * 16 + b div 16))
           (b64char ((b mod 16) * 4 + c div 64)) (b64char (c mod 64)) = Some [a, b, c]"
  using assms
  by (simp add: decode_quad_def b64val_char b64char_not_pad a4 r2 r3 e1 e2 e3)

lemma decode_quad2:
  assumes "a < 256" "b < 256"
  shows "decode_quad (b64char (a div 4)) (b64char ((a mod 4) * 16 + b div 16))
           (b64char ((b mod 16) * 4)) (CHR ''='') = Some [a, b]"
  using assms
  by (simp add: decode_quad_def b64val_char b64char_not_pad a4 r2 r3b e1 e2b)

lemma decode_quad1:
  assumes "a < 256"
  shows "decode_quad (b64char (a div 4)) (b64char ((a mod 4) * 16)) (CHR ''='') (CHR ''='')
           = Some [a]"
  using assms
  by (simp add: decode_quad_def b64val_char a4 r2b e1b)

lemma b64decode_encode:
  "\<forall>b \<in> set bs. b < 256 \<Longrightarrow> b64decode (b64encode bs) = Some bs"
proof (induction bs rule: b64encode.induct)
  case 1
  then show ?case by simp
next
  case (2 a)
  then show ?case by (simp add: decode_quad1)
next
  case (3 a b)
  then show ?case by (simp add: decode_quad2)
next
  case (4 a b c rest)
  then show ?case by (simp add: decode_quad3)
qed

lemma length_b64encode: "length (b64encode bs) = 4 * ((length bs + 2) div 3)"
  by (induction bs rule: b64encode.induct) (simp_all, presburger)

lemma le_bytes_byte: "\<forall>b \<in> set (le_bytes n v). b < 256"
  by (induction n v rule: le_bytes.induct) simp_all

lemma length_le_bytes: "length (le_bytes n v) = n"
  by (induction n v rule: le_bytes.induct) simp_all

lemma le_bytes_2: "le_bytes 2 v = [v mod 256, v div 256 mod 256]"
  by (simp add: numeral_2_eq_2)

lemma le_bytes_4:
  "le_bytes 4 v =
     [v mod 256, v div 256 mod 256, v div 256 div 256 mod 256,
      v div 256 div 256 div 256 mod 256]"
proof -
  have four: "(4::nat) = Suc (Suc (Suc (Suc 0)))"
    by simp
  show ?thesis
    by (subst four) simp
qed

lemma struct_pack_hiih:
  assumes "- (2 ^ 31) \<le> now" "now < 2 ^ 31"
  shows "struct_pack ''<hiih'' [1, now, 0, 16]
           = Inr ([1, 0] @ le_bytes 4 (nat (now mod 2 ^ 32)) @ [0, 0, 0, 0] @ [16, 0])"
proof -
  have h1: "pack_int 2 1 = Inr [1, 0]"
    by (simp add: pack_int_def le_bytes_2)
  have h16: "pack_int 2 16 = Inr [16, 0]"
    by (simp add: pack_int_def le_bytes_2)
  have i0: "pack_int 4 0 = Inr [0, 0, 0, 0]"
    by (simp add: pack_int_def le_bytes_4)
  have inow: "pack_int 4 now = Inr (le_bytes 4 (nat (now mod 2 ^ 32)))"
    using assms by (simp add: pack_int_def)
  show ?thesis
    by (simp add: struct_pack_def field_size_def h1 h16 i0 inow)
qed

lemma b64char_table:
  "b64char 0 = CHR ''A''"
  "b64char 1 = CHR ''B''"
  "b64char (Suc 0) = CHR ''B''"
  "b64char 2 = CHR ''C''"
  "b64char 3 = CHR ''D''"
  "b64char 4 = CHR ''E''"
  "b64char 5 = CHR ''F''"
  "b64char 6 = CHR ''G''"
  "b64char 7 = CHR ''H''"
  "b64char 8 = CHR ''I''"
  "b64char 9 = CHR ''J''"
  "b64char 10 = CHR ''K''"
  "b64char 11 = CHR ''L''"
  "b64char 12 = CHR ''M''"
  "b64char 13 = CHR ''N''"
  "b64char 14 = CHR ''O''"
  "b64char 15 = CHR ''P''"
  "b64char 16 = CHR ''Q''"
  "b64char 17 = CHR ''R''"
  "b64char 18 = CHR ''S''"
  "b64char 19 = CHR ''T''"
  "b64char 20 = CHR ''U''"
  "b64char 21 = CHR ''V''"
  "b64char 22 = CHR ''W''"
  "b64char 23 = CHR ''X''"
  "b64char 24 = CHR ''Y''"
  "b64char 25 = CHR ''Z''"
  "b64char 26 = CHR ''a''"
  "b64char 27 = CHR ''b''"
  "b64char 28 = CHR ''c''"
  "b64char 29 = CHR ''d''"
  "b64char 30 = CHR ''e''"
  "b64char 31 = CHR ''f''"
  "b64char 32 = CHR ''g''"
  "b64char 33 = CHR ''h''"
  "b64char 34 = CHR ''i''"
  "b64char 35 = CHR ''j''"
  "b64char 36 = CHR ''k''"
  "b64char 37 = CHR ''l''"
  "b64char 38 = CHR ''m''"
  "b64char 39 = CHR ''n''"
  "b64char 40 = CHR ''o''"
  "b64char 41 = CHR ''p''"
  "b64char 42 = CHR ''q''"
  "b64char 43 = CHR ''r''"
  "b64char 44 = CHR ''s''"
  "b64char 45 = CHR ''t''"
  "b64char 46 = CHR ''u''"
  "b64char 47 = CHR ''v''"
  "b64char 48 = CHR ''w''"
  "b64char 49 = CHR ''x''"
  "b64char 50 = CHR ''y''"
  "b64char 51 = CHR ''z''"
  "b64char 52 = CHR ''0''"
  "b64char 53 = CHR ''1''"
  "b64char 54 = CHR ''2''"
  "b64char 55 = CHR ''3''"
  "b64char 56 = CHR ''4''"
  "b64char 57 = CHR ''5''"
  "b64char 58 = CHR ''6''"
  "b64char 59 = CHR ''7''"
  "b64char 60 = CHR ''8''"
  "b64char 61 = CHR ''9''"
  "b64char 62 = CHR ''+''"
  "b64char 63 = CHR ''/''"
  by (simp_all add: b64char_def b64alphabet_def)

lemma b64val_table:
  "b64val (CHR ''A'') = Some 0"
  "b64val (CHR ''B'') = Some 1"
  "b64val (CHR ''C'') = Some 2"
  "b64val (CHR ''D'') = Some 3"
  "b64val (CHR ''E'') = Some 4"
  "b64val (CHR ''F'') = Some 5"
  "b64val (CHR ''G'') = Some 6"
  "b64val (CHR ''H'') = Some 7"
  "b64val (CHR ''I'') = Some 8"
  "b64val (CHR ''J'') = Some 9"
  "b64val (CHR ''K'') = Some 10"
  "b64val (CHR ''L'') = Some 11"
  "b64val (CHR ''M'') = Some 12"
  "b64val (CHR ''N'') = Some 13"
  "b64val (CHR ''O'') = Some 14"
  "b64val (CHR ''P'') = Some 15"
  "b64val (CHR ''Q'') = Some 16"
  "b64val (CHR ''R'') = Some 17"
  "b64val (CHR ''S'') = Some 18"
  "b64val (CHR ''T'') = Some 19"
  "b64val (CHR ''U'') = Some 20"
  "b64val (CHR ''V'') = Some 21"
  "b64val (CHR ''W'') = Some 22"
  "b64val (CHR ''X'') = Some 23"
  "b64val (CHR ''Y'') = Some 24"
  "b64val (CHR ''Z'') = Some 25"
  "b64val (CHR ''a'') = Some 26"
  "b64val (CHR ''b'') = Some 27"
  "b64val (CHR ''c'') = Some 28"
  "b64val (CHR ''d'') = Some 29"
  "b64val (CHR ''e'') = Some 30"
  "b64val (CHR ''f'') = Some 31"
  "b64val (CHR ''g'') = Some 32"
  "b64val (CHR ''h'') = Some 33"
  "b64val (CHR ''i'') = Some 34"
  "b64val (CHR ''j'') = Some 35"
  "b64val (CHR ''k'') = Some 36"
  "b64val (CHR ''l'') = Some 37"
  "b64val (CHR ''m'') = Some 38"
  "b64val (CHR ''n'') = Some 39"
  "b64val (CHR ''o'') = Some 40"
  "b64val (CHR ''p'') = Some 41"
  "b64val (CHR ''q'') = Some 42"
  "b64val (CHR ''r'') = Some 43"
  "b64val (CHR ''s'') = Some 44"
  "b64val (CHR ''t'') = Some 45"
  "b64val (CHR ''u'') = Some 46"
  "b64val (CHR ''v'') = Some 47"
  "b64val (CHR ''w'') = Some 48"
  "b64val (CHR ''x'') = Some 49"
  "b64val (CHR ''y'') = Some 50"
  "b64val (CHR ''z'') = Some 51"
  "b64val (CHR ''0'') = Some 52"
  "b64val (CHR ''1'') = Some 53"
  "b64val (CHR ''2'') = Some 54"
  "b64val (CHR ''3'') = Some 55"
  "b64val (CHR ''4'') = Some 56"
  "b64val (CHR ''5'') = Some 57"
  "b64val (CHR ''6'') = Some 58"
  "b64val (CHR ''7'') = Some 59"
  "b64val (CHR ''8'') = Some 60"
  "b64val (CHR ''9'') = Some 61"
  "b64val (CHR ''+'') = Some 62"
  "b64val (CHR ''/'') = Some 63"
  by (simp_all add: b64val_def b64alphabet_def)

text \<open>
  C5, as the code has it: for 16 random bytes and a time that fits a signed 32-bit integer,
  \<open>generate_secret\<close> returns the base64 encoding (40 characters) of a 12-byte header
  followed by the 16 bytes. The header is, little-endian, the format version 1 as int16, the
  creation time in seconds as int32, a zero field of four bytes (int32), and the key length
  16 as int16.
\<close>

theorem generate_secret_layout:
  assumes "length key = 16" and "\<forall>b \<in> set key. b < 256"
    and "- (2 ^ 31) \<le> now" and "now < 2 ^ 31"
  shows "\<exists>secret. generate_secret key now = Inr secret
           \<and> b64decode secret
               = Some ([1, 0] @ le_bytes 4 (nat (now mod 2 ^ 32)) @ [0, 0, 0, 0] @ [16, 0] @ key)
           \<and> length secret = 40"
proof -
  let ?payload = "[1, 0] @ le_bytes 4 (nat (now mod 2 ^ 32)) @ [0, 0, 0, 0] @ [16, 0] @ key"
  have g: "generate_secret key now = Inr (b64encode ?payload)"
    using assms(1) struct_pack_hiih [OF assms(3,4)] by (simp add: generate_secret_def)
  have bytes: "\<forall>b \<in> set ?payload. b < 256"
    using assms(2) le_bytes_byte [of 4 "nat (now mod 2 ^ 32)"] by auto
  have len: "length ?payload = 28"
    using assms(1) by (simp add: length_le_bytes)
  have "length (b64encode ?payload) = 40"
    unfolding length_b64encode len by simp
  with g b64decode_encode [OF bytes] show ?thesis by simp
qed

theorem generate_secret_layout_witness:
  "generate_secret [1, 2, 3, 4, 5, 6, 7, 8, 9, 10, 11, 12, 13, 14, 15, 255] 1700000000
     = Inr ''AQAA8VNlAAAAABAAAQIDBAUGBwgJCgsMDQ4P/w==''
   \<and> b64decode ''AQAA8VNlAAAAABAAAQIDBAUGBwgJCgsMDQ4P/w==''
     = Some ([1, 0] @ [0, 241, 83, 101] @ [0, 0, 0, 0] @ [16, 0]
             @ [1, 2, 3, 4, 5, 6, 7, 8, 9, 10, 11, 12, 13, 14, 15, 255])"
proof -
  have l: "le_bytes 4 (nat (1700000000 mod 2 ^ 32)) = [0, 241, 83, 101]"
    by (simp add: le_bytes_4)
  have p: "struct_pack ''<hiih'' [1, 1700000000, 0, 16]
             = Inr [1, 0, 0, 241, 83, 101, 0, 0, 0, 0, 16, 0]"
    using struct_pack_hiih [of 1700000000] l by simp
  have g: "generate_secret [1, 2, 3, 4, 5, 6, 7, 8, 9, 10, 11, 12, 13, 14, 15, 255] 1700000000
             = Inr ''AQAA8VNlAAAAABAAAQIDBAUGBwgJCgsMDQ4P/w==''"
    by (simp add: generate_secret_def p b64char_table)
  show ?thesis
    using generate_secret_layout
            [of "[1, 2, 3, 4, 5, 6, 7, 8, 9, 10, 11, 12, 13, 14, 15, 255]" 1700000000] g l
    by simp
qed

text \<open>
  C5 as stated fails: with a reserved field of two bytes the payload would have 26 bytes;
  the secret the code generates decodes to 28 bytes, with four zero bytes between the time
  and the key length.
\<close>

theorem generate_secret_layout_counterexample:
  "generate_secret (replicate 16 0) 0 = Inr ''AQAAAAAAAAAAABAAAAAAAAAAAAAAAAAAAAAAAA==''
   \<and> generate_secret_spec (replicate 16 0) 0 = Inr ''AQAAAAAAAAAQAAAAAAAAAAAAAAAAAAAAAAA=''
   \<and> b64decode ''AQAAAAAAAAAAABAAAAAAAAAAAAAAAAAAAAAAAA==''
       = Some ([1, 0] @ [0, 0, 0, 0] @ [0, 0, 0, 0] @ [16, 0] @ replicate 16 0)
   \<and> b64decode ''AQAAAAAAAAAQAAAAAAAAAAAAAAAAAAAAAAA=''
       = Some ([1, 0] @ [0, 0, 0, 0] @ [0, 0] @ [16, 0] @ replicate 16 0)"
proof -
  have r: "replicate 16 (0::nat) = [0, 0, 0, 0, 0, 0, 0, 0, 0, 0, 0, 0, 0, 0, 0, 0]"
    by (simp add: numeral_eq_Suc)
  have p: "struct_pack ''<hiih'' [1, 0, 0, 16] = Inr [1, 0, 0, 0, 0, 0, 0, 0, 0, 0, 16, 0]"
    using struct_pack_hiih [of 0] by (simp add: le_bytes_4)
  have q: "struct_pack ''<hihh'' [1, 0, 0, 16] = Inr [1, 0, 0, 0, 0, 0, 0, 0, 16, 0]"
    by (simp add: struct_pack_def field_size_def pack_int_def le_bytes_2 le_bytes_4)
  have g: "generate_secret (replicate 16 0) 0 = Inr ''AQAAAAAAAAAAABAAAAAAAAAAAAAAAAAAAAAAAA==''"
    unfolding r by (simp add: generate_secret_def p b64char_table)
  have s: "generate_secret_spec (replicate 16 0) 0 = Inr ''AQAAAAAAAAAQAAAAAAAAAAAAAAAAAAAAAAA=''"
    unfolding r by (simp add: generate_secret_spec_def q b64char_table)
  have d: "b64decode ''AQAAAAAAAAAAABAAAAAAAAAAAAAAAAAAAAAAAA==''
             = Some ([1, 0] @ [0, 0, 0, 0] @ [0, 0, 0, 0] @ [16, 0] @ replicate 16 0)"
    unfolding r by (simp add: decode_quad_def b64val_table)
  have e: "b64decode ''AQAAAAAAAAAQAAAAAAAAAAAAAAAAAAAAAAA=''
             = Some ([1, 0] @ [0, 0, 0, 0] @ [0, 0] @ [16, 0] @ replicate 16 0)"
    unfolding r by (simp add: decode_quad_def b64val_table)
  show ?thesis
    using g s d e by simp
qed

subsection \<open>State absent\<close>

text \<open>
  C1, evaluated on the code: \<open>key_exist\<close> is 1 when the absent branch tests it, because the
  registry is queried in the branch of present and update only. For every request with state
  absent, whether or not the entity is in the registry, \<open>run_module\<close> therefore runs no
  command at all, \<open>del\<close> included, and then reads the unbound variable \<open>cmd\<close> while it
  builds the result.
\<close>

theorem absent_never_deletes:
  "p_state p = St_absent \<Longrightarrow> \<not> p_check_mode p \<Longrightarrow>
   run_module p w = ([], Stop (Raised (UnboundLocalError ''cmd'')))"
  by (simp add: run_module_def absent_branch_def initial_locals_def finish_branch_def
        finish_def)

theorem absent_never_deletes_witness:
  "run_module (foo_params\<lparr>p_state := St_absent\<rparr>) foo_world
     = ([], Stop (Raised (UnboundLocalError ''cmd'')))"
  using absent_never_deletes [of "foo_params\<lparr>p_state := St_absent\<rparr>" foo_world]
  by (simp add: foo_params_def)

text \<open>
  C3, evaluated on the code: deleting the same entity twice is two runs with state absent,
  the second against a registry that no longer holds the entity. Whatever the registry
  answers at the first run and at the second, neither run issues \<open>del\<close> or any other
  command, and both end with the exception that the unbound variable \<open>cmd\<close> raises: the
  second deletion is not reported as a success.
\<close>

theorem delete_twice_raises:
  "p_state p = St_absent \<Longrightarrow> \<not> p_check_mode p \<Longrightarrow>
   run_module p w_first = ([], Stop (Raised (UnboundLocalError ''cmd'')))
   \<and> run_module p w_second = ([], Stop (Raised (UnboundLocalError ''cmd'')))"
  by (simp add: run_module_def absent_branch_def initial_locals_def finish_branch_def
        finish_def)

theorem delete_twice_raises_witness:
  "run_module (foo_params\<lparr>p_state := St_absent\<rparr>) foo_world
     = ([], Stop (Raised (UnboundLocalError ''cmd'')))
   \<and> run_module (foo_params\<lparr>p_state := St_absent\<rparr>)
       (foo_world\<lparr>run_command := (\<lambda>argv. (2, [], ''Error ENOENT''))\<rparr>)
     = ([], Stop (Raised (UnboundLocalError ''cmd'')))"
  using delete_twice_raises
          [of "foo_params\<lparr>p_state := St_absent\<rparr>" foo_world
              "foo_world\<lparr>run_command := (\<lambda>argv. (2, [], ''Error ENOENT''))\<rparr>"]
  by (simp add: foo_params_def)

subsection \<open>States present and update, import enabled\<close>

lemma caps_eq_refl: "caps_eq (Some c) (Some c)"
  by (simp add: caps_eq_def)

lemma existing_key_unchanged:
  assumes "json_decode w out = Inr info"
    and "info_record info = Found (cur_key, cur_caps)"
    and "\<not> truthy (p_secret p) \<or> p_secret p = Some cur_key"
    and "\<not> caps_truthy (p_caps p) \<or> caps_eq (p_caps p) (Some cur_caps)"
  shows "existing_key p w ukp fp out l = fetch_if_missing p w ukp fp"
  using assms by (auto simp: existing_key_def Let_def caps_eq_refl)

lemma present_branch_existing:
  assumes "p_import_key p"
    and "run_command w (info_cmd p w) = (0, out, err)"
  shows "present_branch p w (default_user_key_path p) l
           = after [info_cmd p w]
               (existing_key p w (default_user_key_path p)
                  (keyring_file_path (isdir w) (p_dest p) (p_cluster p) (p_name p)) out
                  ((bind_exec (0, info_cmd p w, out, err) l)\<lparr>l_key_exist := 0\<rparr>))"
  using assms by (simp add: present_branch_def info_key_def info_cmd_def Let_def)

lemma fetch_if_missing_present:
  "isfile w fp \<Longrightarrow>
   fetch_if_missing p w ukp fp
     = ([], Inl (Stop (Exit_json
              (initial_result\<lparr>r_stdout := msg_already (p_name p), r_rc := 0\<rparr>))))"
  by (simp add: fetch_if_missing_def)

lemma fetch_if_missing_absent:
  assumes "\<not> isfile w (keyring_file_path (isdir w) (p_dest p) (p_cluster p) (p_name p))"
    and "run_command w (fetch_cmd p w) = (rc, out, err)"
  shows "fetch_if_missing p w (default_user_key_path p)
           (keyring_file_path (isdir w) (p_dest p) (p_cluster p) (p_name p))
         = ([fetch_cmd p w],
            Inl (Stop (Exit_json
              (if rc \<noteq> 0
               then initial_result
                      \<lparr>r_rc := rc,
                       r_stdout := ''Couldn't fetch the key '' @ p_name p @ '' at ''
                         @ keyring_file_path (isdir w) (p_dest p) (p_cluster p) (p_name p)
                         @ ''.''\<rparr>
               else initial_result\<lparr>r_stdout := msg_already (p_name p), r_rc := 0\<rparr>))))"
  using assms by (simp add: fetch_if_missing_def get_key_def fetch_cmd_def)

text \<open>
  C7: in state present or update with import enabled, when the \<open>get\<close> query exits with 0
  (the entity exists), its output decodes to a record, and both the secret and the
  capabilities asked for are either unspecified or equal to the current ones, the module
  ends through \<open>exit_json\<close> unchanged. With the keyring file present the query is the only
  command run; with the file missing the only other command is \<open>get -o <file>\<close>, the
  fetch of the local copy. No ceph-authtool, \<open>import\<close> or \<open>get-or-create\<close> command is run.
\<close>

theorem present_import_unchanged:
  assumes "p_state p = St_present \<or> p_state p = St_update"
    and "p_import_key p" and "\<not> p_check_mode p"
    and "run_command w (info_cmd p w) = (0, out, err)"
    and "json_decode w out = Inr info"
    and "info_record info = Found (cur_key, cur_caps)"
    and "\<not> truthy (p_secret p) \<or> p_secret p = Some cur_key"
    and "\<not> caps_truthy (p_caps p) \<or> caps_eq (p_caps p) (Some cur_caps)"
  shows "(isfile w (keyring_file_path (isdir w) (p_dest p) (p_cluster p) (p_name p)) \<longrightarrow>
            run_module p w
              = ([info_cmd p w],
                 Stop (Exit_json
                   (initial_result\<lparr>r_stdout := msg_already (p_name p), r_rc := 0\<rparr>))))
         \<and> (\<not> isfile w (keyring_file_path (isdir w) (p_dest p) (p_cluster p) (p_name p)) \<longrightarrow>
              fst (run_module p w) = [info_cmd p w, fetch_cmd p w]
              \<and> (\<exists>res. snd (run_module p w) = Stop (Exit_json res) \<and> \<not> r_changed res
                        \<and> r_cmd res = None))"
proof -
  let ?fp = "keyring_file_path (isdir w) (p_dest p) (p_cluster p) (p_name p)"
  let ?ukp = "default_user_key_path p"
  let ?l = "(bind_exec (0, info_cmd p w, out, err) initial_locals)\<lparr>l_key_exist := 0\<rparr>"
  have pb: "present_branch p w ?ukp initial_locals
              = after [info_cmd p w] (fetch_if_missing p w ?ukp ?fp)"
    using present_branch_existing [OF assms(2,4), of initial_locals]
          existing_key_unchanged [OF assms(5,6,7,8), of ?ukp ?fp ?l]
    by simp
  have rm: "run_module p w
              = finish_branch (after [info_cmd p w] (fetch_if_missing p w ?ukp ?fp))"
    using assms(1,3) pb by (auto simp: run_module_def Let_def)
  show ?thesis
  proof (intro conjI impI)
    assume f: "isfile w ?fp"
    show "run_module p w
            = ([info_cmd p w],
               Stop (Exit_json
                 (initial_result\<lparr>r_stdout := msg_already (p_name p), r_rc := 0\<rparr>)))"
      unfolding rm fetch_if_missing_present [OF f]
      by (simp add: after_def finish_branch_def)
  next
    assume nf: "\<not> isfile w ?fp"
    obtain rc o2 e2 where r: "run_command w (fetch_cmd p w) = (rc, o2, e2)"
      by (cases "run_command w (fetch_cmd p w)") auto
    show "fst (run_module p w) = [info_cmd p w, fetch_cmd p w]"
      unfolding rm fetch_if_missing_absent [OF nf r]
      by (simp add: after_def finish_branch_def)
    show "\<exists>res. snd (run_module p w) = Stop (Exit_json res) \<and> \<not> r_changed res
                \<and> r_cmd res = None"
      unfolding rm fetch_if_missing_absent [OF nf r]
      by (simp add: after_def finish_branch_def initial_result_def)
  qed
qed

lemma foo_record_found:
  "info_record foo_record = Found (''AQ=='', [(''mon'', ''allow r'')])"
  by (simp add: info_record_def foo_record_def subscript0_def subscript_key_def json_caps_def)

theorem present_import_unchanged_witness:
  "fst (run_module foo_params foo_world)
     = [[''ceph'', ''-n'', ''client.admin'', ''-k'', ''/etc/ceph/ceph.client.admin.keyring'',
         ''--cluster'', ''ceph'', ''auth'', ''get'', ''client.foo'', ''-f'', ''json''],
        [''ceph'', ''-n'', ''client.admin'', ''-k'', ''/etc/ceph/ceph.client.admin.keyring'',
         ''--cluster'', ''ceph'', ''auth'', ''get'', ''client.foo'', ''-o'',
         ''/etc/ceph/ceph.client.foo.keyring'']]
   \<and> run_module (foo_params\<lparr>p_secret := Some ''AQ==''\<rparr>) (foo_world\<lparr>isfile := (\<lambda>f. True)\<rparr>)
     = ([[''ceph'', ''-n'', ''client.admin'', ''-k'', ''/etc/ceph/ceph.client.admin.keyring'',
          ''--cluster'', ''ceph'', ''auth'', ''get'', ''client.foo'', ''-f'', ''json'']],
        Stop (Exit_json
          (initial_result
             \<lparr>r_stdout := ''client.foo already exists and doesn't need to be updated.'',
              r_rc := 0\<rparr>)))"
  using present_import_unchanged
          [of foo_params foo_world "''record''" "[]" foo_record "''AQ==''"
              "[(''mon'', ''allow r'')]"]
        present_import_unchanged
          [of "foo_params\<lparr>p_secret := Some ''AQ==''\<rparr>" "foo_world\<lparr>isfile := (\<lambda>f. True)\<rparr>"
              "''record''" "[]" foo_record "''AQ==''" "[(''mon'', ''allow r'')]"]
        foo_record_found
  by (simp add: foo_params_def foo_world_def info_cmd_def fetch_cmd_def generate_cmd_def
        binary_cmd_def truthy_def caps_truthy_def is_containerized_def
        default_user_key_path_def keyring_file_path_def path_join_def path_join_step_def
        sublist_Cons_right msg_already_def)

subsection \<open>States present and update, import disabled\<close>

lemma run_module_present:
  assumes "p_state p = St_present \<or> p_state p = St_update" and "\<not> p_check_mode p"
  shows "run_module p w
           = finish_branch (present_branch p w (default_user_key_path p) initial_locals)"
  using assms by (auto simp: run_module_def Let_def)

lemma present_no_import_exit:
  assumes "\<not> p_import_key p"
    and "isfile w (keyring_file_path (isdir w) (p_dest p) (p_cluster p) (p_name p))"
    and "\<not> truthy (p_secret p) \<or> \<not> caps_truthy (p_caps p)"
  shows "present_branch p w ukp l
           = ([], Inl (Stop (Exit_json
                (initial_result\<lparr>r_stdout := msg_provide p, r_rc := 0\<rparr>))))"
  using assms by (auto simp: present_branch_def Let_def msg_provide_def)

lemma create_key_no_import:
  assumes "(p_secret p = Some s \<and> s \<noteq> [])
           \<or> (\<not> truthy (p_secret p) \<and> generate_secret (urandom16 w) (time_time w) = Inr s)"
  shows "create_key (env_container_binary w) (urandom16 w) (time_time w) (p_cluster p)
           (p_user p) (default_user_key_path p) (p_name p) (p_secret p) c False
           (keyring_file_path (isdir w) (p_dest p) (p_cluster p) (p_name p))
           (is_containerized w)
         = Inr (if p_user p = ''client.admin'' then [authtool_cmd p w s c]
                else [authtool_cmd p w s c, get_or_create_cmd p w c])"
  using assms
  by (auto simp: create_key_def truthy_def Let_def authtool_cmd_def get_or_create_cmd_def)

lemma present_no_import_create:
  assumes "\<not> p_import_key p" and "p_caps p = Some c" and "c \<noteq> []"
    and "(p_secret p = Some s \<and> s \<noteq> [])
         \<or> (\<not> truthy (p_secret p)
             \<and> \<not> isfile w (keyring_file_path (isdir w) (p_dest p) (p_cluster p) (p_name p))
             \<and> generate_secret (urandom16 w) (time_time w) = Inr s)"
  shows "fst (present_branch p w (default_user_key_path p) initial_locals)
           = fst (exec_commands (run_command w)
                    (if p_user p = ''client.admin'' then [authtool_cmd p w s c]
                     else [authtool_cmd p w s c, get_or_create_cmd p w c]))"
proof -
  have ck: "create_key (env_container_binary w) (urandom16 w) (time_time w) (p_cluster p)
           (p_user p) (default_user_key_path p) (p_name p) (p_secret p) c False
           (keyring_file_path (isdir w) (p_dest p) (p_cluster p) (p_name p))
           (is_containerized w)
         = Inr (if p_user p = ''client.admin'' then [authtool_cmd p w s c]
                else [authtool_cmd p w s c, get_or_create_cmd p w c])"
    using assms(4) by (intro create_key_no_import) auto
  have guard: "\<not> ((isfile w (keyring_file_path (isdir w) (p_dest p) (p_cluster p) (p_name p))
                   \<and> \<not> truthy (p_secret p)) \<or> \<not> caps_truthy (p_caps p))"
    using assms(2,3,4) by (auto simp: caps_truthy_def truthy_def)
  have pb: "present_branch p w (default_user_key_path p) initial_locals
          = create_step p w (default_user_key_path p)
              (keyring_file_path (isdir w) (p_dest p) (p_cluster p) (p_name p))
              (p_secret p) (p_caps p) (p_secret p) (p_caps p) initial_locals"
    using assms(1) guard by (auto simp: present_branch_def Let_def)
  show ?thesis
    unfolding pb
    using assms(1,2) ck
    by (auto simp: create_step_def initial_locals_def split: prod.splits sum.splits)
qed

text \<open>
  C4, as the code has it: in state present or update with import disabled, when the keyring
  file exists and the secret or the capabilities are unspecified, the module runs no command
  and ends through \<open>exit_json\<close> with \<open>rc\<close> 0, unchanged, with a message that asks for
  both. When capabilities are given and the secret is given, or is unspecified while the
  file is missing (it is then generated), the module runs ceph-authtool to write the keyring;
  for the acting identity \<open>client.admin\<close> that is the only command, and for any other
  acting identity \<open>get-or-create\<close> follows once ceph-authtool has exited with 0.
\<close>

theorem present_without_import:
  assumes "p_state p = St_present \<or> p_state p = St_update"
    and "\<not> p_import_key p" and "\<not> p_check_mode p"
  shows "(isfile w (keyring_file_path (isdir w) (p_dest p) (p_cluster p) (p_name p))
            \<and> (\<not> truthy (p_secret p) \<or> \<not> caps_truthy (p_caps p)) \<longrightarrow>
          run_module p w
            = ([], Stop (Exit_json (initial_result\<lparr>r_stdout := msg_provide p, r_rc := 0\<rparr>))))
         \<and> (p_caps p = Some c \<and> c \<noteq> []
              \<and> ((p_secret p = Some s \<and> s \<noteq> [])
                  \<or> (\<not> truthy (p_secret p)
                      \<and> \<not> isfile w
                            (keyring_file_path (isdir w) (p_dest p) (p_cluster p) (p_name p))
                      \<and> generate_secret (urandom16 w) (time_time w) = Inr s)) \<longrightarrow>
              fst (run_module p w)
                = (if p_user p = ''client.admin'' then [authtool_cmd p w s c]
                   else if fst (run_command w (authtool_cmd p w s c)) \<noteq> 0
                   then [authtool_cmd p w s c]
                   else [authtool_cmd p w s c, get_or_create_cmd p w c]))"
proof (intro conjI impI)
  assume a: "isfile w (keyring_file_path (isdir w) (p_dest p) (p_cluster p) (p_name p))
             \<and> (\<not> truthy (p_secret p) \<or> \<not> caps_truthy (p_caps p))"
  show "run_module p w
          = ([], Stop (Exit_json (initial_result\<lparr>r_stdout := msg_provide p, r_rc := 0\<rparr>)))"
    unfolding run_module_present [OF assms(1,3)]
    using present_no_import_exit [OF assms(2), of w "default_user_key_path p" initial_locals] a
    by (simp add: finish_branch_def)
next
  assume b: "p_caps p = Some c \<and> c \<noteq> []
              \<and> ((p_secret p = Some s \<and> s \<noteq> [])
                  \<or> (\<not> truthy (p_secret p)
                      \<and> \<not> isfile w
                            (keyring_file_path (isdir w) (p_dest p) (p_cluster p) (p_name p))
                      \<and> generate_secret (urandom16 w) (time_time w) = Inr s))"
  have tr: "fst (run_module p w)
              = fst (present_branch p w (default_user_key_path p) initial_locals)"
    unfolding run_module_present [OF assms(1,3)]
    by (simp add: finish_branch_def split: prod.splits sum.splits)
  have "fst (present_branch p w (default_user_key_path p) initial_locals)
           = fst (exec_commands (run_command w)
                    (if p_user p = ''client.admin'' then [authtool_cmd p w s c]
                     else [authtool_cmd p w s c, get_or_create_cmd p w c]))"
    using b by (intro present_no_import_create [OF assms(2)]) auto
  then show "fst (run_module p w)
                = (if p_user p = ''client.admin'' then [authtool_cmd p w s c]
                   else if fst (run_command w (authtool_cmd p w s c)) \<noteq> 0
                   then [authtool_cmd p w s c]
                   else [authtool_cmd p w s c, get_or_create_cmd p w c])"
    unfolding tr by (auto split: prod.splits)
qed

theorem present_without_import_witness:
  "run_module (foo_params\<lparr>p_import_key := False, p_caps := Some [(''mon'', ''allow r'')]\<rparr>)
     (foo_world\<lparr>isfile := (\<lambda>f. True)\<rparr>)
     = ([], Stop (Exit_json
          (initial_result
             \<lparr>r_stdout := ''client.foo already exists in /etc/ceph/ you must provide secret *and* caps when import_key is False'',
              r_rc := 0\<rparr>)))
   \<and> fst (run_module
            (foo_params\<lparr>p_import_key := False, p_caps := Some [(''mon'', ''allow r'')],
                        p_secret := Some ''AQ==''\<rparr>) foo_world)
     = [[''ceph-authtool'', ''--create-keyring'', ''/etc/ceph/ceph.client.foo.keyring'',
         ''--name'', ''client.foo'', ''--add-key'', ''AQ=='', ''--cap'', ''mon'', ''allow r'']]"
  using present_without_import
          [of "foo_params\<lparr>p_import_key := False, p_caps := Some [(''mon'', ''allow r'')]\<rparr>"
              "foo_world\<lparr>isfile := (\<lambda>f. True)\<rparr>" "[(''mon'', ''allow r'')]" "''AQ==''"]
        present_without_import
          [of "foo_params\<lparr>p_import_key := False, p_caps := Some [(''mon'', ''allow r'')],
                           p_secret := Some ''AQ==''\<rparr>"
              foo_world "[(''mon'', ''allow r'')]" "''AQ==''"]
  by (simp add: foo_params_def foo_world_def msg_provide_def authtool_cmd_def
        generate_ceph_authtool_cmd_def generate_caps_def binary_cmd_def truthy_def
        caps_truthy_def is_containerized_def keyring_file_path_def path_join_def
        path_join_step_def sublist_Cons_right)

text \<open>
  C4 as stated fails: with the file present and no secret the module ends through
  \<open>exit_json\<close> with \<open>rc\<close> 0, not as a failure; and with import disabled and the acting
  identity \<open>client.bootstrap-rgw\<close> the run issues \<open>get-or-create\<close> against the registry.
\<close>

theorem present_without_import_counterexample:
  "run_module (foo_params\<lparr>p_import_key := False, p_caps := Some [(''mon'', ''allow r'')]\<rparr>)
     (foo_world\<lparr>isfile := (\<lambda>f. True)\<rparr>)
     = ([], Stop (Exit_json
          (initial_result
             \<lparr>r_stdout := ''client.foo already exists in /etc/ceph/ you must provide secret *and* caps when import_key is False'',
              r_rc := 0\<rparr>)))
   \<and> fst (run_module
            (foo_params\<lparr>p_import_key := False, p_caps := Some [(''mon'', ''allow r'')],
                        p_secret := Some ''AQ=='', p_user := ''client.bootstrap-rgw'',
                        p_user_key := Some ''/var/lib/ceph/bootstrap-rgw/ceph.keyring''\<rparr>)
            foo_world)
     = [[''ceph-authtool'', ''--create-keyring'', ''/etc/ceph/ceph.client.foo.keyring'',
         ''--name'', ''client.foo'', ''--add-key'', ''AQ=='', ''--cap'', ''mon'', ''allow r''],
        [''ceph'', ''-n'', ''client.bootstrap-rgw'', ''-k'',
         ''/var/lib/ceph/bootstrap-rgw/ceph.keyring'', ''--cluster'', ''ceph'', ''auth'',
         ''get-or-create'', ''client.foo'', ''mon'', ''allow r'', ''-o'',
         ''/etc/ceph/ceph.client.foo.keyring'']]"
  by (simp add: run_module_def present_branch_def create_step_def create_key_def
        finish_branch_def finish_def bind_exec_def Let_def foo_params_def foo_world_def
        generate_ceph_authtool_cmd_def generate_cmd_def generate_caps_def binary_cmd_def
        truthy_def caps_truthy_def is_containerized_def keyring_file_path_def path_join_def
        path_join_step_def sublist_Cons_right default_user_key_path_def initial_locals_def)

end
